theory Spec2Isabelle
  imports Complex_Main "HOL-Library.Stream"
begin

section \<open>Emotion mapping\<close>

text \<open>
  The catalog \<^verbatim>\<open>emotions\<close> of \<^verbatim>\<open>runner.py\<close> is a dict literal whose values are dicts with
  the two keys \<^verbatim>\<open>"valence"\<close> and \<^verbatim>\<open>"arousal"\<close>. A Python dict iterates in insertion order,
  so the catalog is an association list in the order of the literal; the inner dict is a record.
  Python floats are modelled as reals.
\<close>

record scores =
  valence :: real
  arousal :: real

definition emotions :: "(string \<times> scores) list" where
  "emotions = [
    (''Sleepy'', \<lparr>valence = 0.01, arousal = (- 1.00)\<rparr>),
    (''Tired'', \<lparr>valence = (- 0.01), arousal = (- 1.00)\<rparr>),
    (''Afraid'', \<lparr>valence = (- 0.12), arousal = 0.79\<rparr>),
    (''Angry'', \<lparr>valence = (- 0.40), arousal = 0.79\<rparr>),
    (''Calm'', \<lparr>valence = 0.78, arousal = (- 0.68)\<rparr>),
    (''Relaxed'', \<lparr>valence = 0.71, arousal = (- 0.65)\<rparr>),
    (''Content'', \<lparr>valence = 0.81, arousal = (- 0.55)\<rparr>),
    (''Depressed'', \<lparr>valence = (- 0.81), arousal = (- 0.48)\<rparr>),
    (''Discontent'', \<lparr>valence = (- 0.68), arousal = (- 0.32)\<rparr>),
    (''Determined'', \<lparr>valence = 0.73, arousal = 0.26\<rparr>),
    (''Happy'', \<lparr>valence = 0.89, arousal = 0.17\<rparr>),
    (''Anxious'', \<lparr>valence = (- 0.72), arousal = (- 0.80)\<rparr>),
    (''Good'', \<lparr>valence = 0.90, arousal = (- 0.08)\<rparr>),
    (''Pensive'', \<lparr>valence = 0.03, arousal = (- 0.60)\<rparr>),
    (''Impressed'', \<lparr>valence = 0.39, arousal = (- 0.06)\<rparr>),
    (''Frustrated'', \<lparr>valence = (- 0.60), arousal = 0.40\<rparr>),
    (''Disappointed'', \<lparr>valence = (- 0.80), arousal = (- 0.03)\<rparr>),
    (''Bored'', \<lparr>valence = (- 0.35), arousal = (- 0.78)\<rparr>),
    (''Annoyed'', \<lparr>valence = (- 0.44), arousal = 0.76\<rparr>),
    (''Enraged'', \<lparr>valence = (- 0.18), arousal = 0.83\<rparr>),
    (''Excited'', \<lparr>valence = 0.70, arousal = 0.71\<rparr>),
    (''Melancholy'', \<lparr>valence = (- 0.05), arousal = (- 0.65)\<rparr>),
    (''Satisfied'', \<lparr>valence = 0.77, arousal = (- 0.63)\<rparr>),
    (''Distressed'', \<lparr>valence = (- 0.71), arousal = 0.55\<rparr>),
    (''Uncomfortable'', \<lparr>valence = (- 0.68), arousal = (- 0.37)\<rparr>),
    (''Worried'', \<lparr>valence = (- 0.07), arousal = (- 0.32)\<rparr>),
    (''Amused'', \<lparr>valence = 0.55, arousal = 0.19\<rparr>),
    (''Apathetic'', \<lparr>valence = (- 0.20), arousal = (- 0.12)\<rparr>),
    (''Peaceful'', \<lparr>valence = 0.55, arousal = (- 0.80)\<rparr>),
    (''Contemplative'', \<lparr>valence = 0.58, arousal = (- 0.60)\<rparr>),
    (''Embarrassed'', \<lparr>valence = (- 0.31), arousal = (- 0.60)\<rparr>),
    (''Sad'', \<lparr>valence = (- 0.81), arousal = (- 0.40)\<rparr>),
    (''Hopeful'', \<lparr>valence = 0.61, arousal = (- 0.30)\<rparr>),
    (''Pleased'', \<lparr>valence = 0.89, arousal = (- 0.10)\<rparr>)]"

text \<open>\<^verbatim>\<open>min_distance\<close> starts as \<^verbatim>\<open>math.inf\<close> and is a float afterwards.\<close>

datatype min_dist = Infinity | Finite real

fun dist_less :: "real \<Rightarrow> min_dist \<Rightarrow> bool" where
  "dist_less d Infinity = True"
| "dist_less d (Finite m) = (d < m)"

definition distance :: "real \<Rightarrow> real \<Rightarrow> scores \<Rightarrow> real" where
  "distance v a sc = sqrt ((v - valence sc)\<^sup>2 + (a - arousal sc)\<^sup>2)"

text \<open>The \<^verbatim>\<open>for emotion, scores in emotions.items()\<close> loop, on the pair
  \<^verbatim>\<open>(closest_emotion, min_distance)\<close>.\<close>

fun find_emotion_loop ::
  "real \<Rightarrow> real \<Rightarrow> (string \<times> scores) list \<Rightarrow> string option \<times> min_dist \<Rightarrow> string option \<times> min_dist"
where
  "find_emotion_loop v a [] st = st"
| "find_emotion_loop v a ((emotion, sc) # rest) (closest_emotion, min_distance) =
     (if dist_less (distance v a sc) min_distance
      then find_emotion_loop v a rest (Some emotion, Finite (distance v a sc))
      else find_emotion_loop v a rest (closest_emotion, min_distance))"

definition find_emotion :: "real \<Rightarrow> real \<Rightarrow> string option" where
  "find_emotion v a = fst (find_emotion_loop v a emotions (None, Infinity))"

definition clustered_emotions :: "(string \<times> string list) list" where
  "clustered_emotions = [
    (''blue'', [''Determined'', ''Happy'', ''Good'', ''Impressed'', ''Excited'', ''Amused'',
       ''Hopeful'', ''Pleased'']),
    (''red'', [''Depressed'', ''Discontent'', ''Anxious'', ''Disappointed'', ''Bored'',
       ''Uncomfortable'', ''Worried'', ''Apathetic'', ''Embarrassed'', ''Sad'']),
    (''green'', [''Afraid'', ''Angry'', ''Frustrated'', ''Annoyed'', ''Enraged'', ''Distressed'']),
    (''purple'', [''Sleepy'', ''Tired'', ''Calm'', ''Relaxed'', ''Content'', ''Pensive'',
       ''Melancholy'', ''Satisfied'', ''Peaceful'', ''Contemplative''])]"

definition normalize_value :: "real \<Rightarrow> real" where
  "normalize_value v = (v - 1) / 4 - 1"

text \<open>\<^verbatim>\<open>emotion in emotion_list\<close>, where \<^verbatim>\<open>emotion\<close> may be \<^verbatim>\<open>None\<close>.\<close>

fun in_list :: "string option \<Rightarrow> string list \<Rightarrow> bool" where
  "in_list None emotion_list = False"
| "in_list (Some e) emotion_list = (e \<in> set emotion_list)"

text \<open>The \<^verbatim>\<open>for color, emotion_list in clustered_emotions.items()\<close> loop of
  \<^verbatim>\<open>get_colormap\<close>; falling out of the loop is \<^verbatim>\<open>return None\<close>.\<close>

fun color_of :: "string option \<Rightarrow> (string \<times> string list) list \<Rightarrow> string option" where
  "color_of emotion [] = None"
| "color_of emotion ((color, emotion_list) # rest) =
     (if in_list emotion emotion_list then Some color else color_of emotion rest)"

definition get_colormap :: "real \<Rightarrow> real \<Rightarrow> string option" where
  "get_colormap v a =
     color_of (find_emotion (normalize_value v) (normalize_value a)) clustered_emotions"


section \<open>Library interface\<close>

text \<open>
  A waveform is a one-dimensional float array, a descriptor a two-dimensional one (channels by
  frames), a batch of one descriptor the tensor the networks take. Floats are modelled as reals.
\<close>

type_synonym waveform = "real list"
type_synonym array2d = "real list list"

text \<open>
  The source defines no exception class and has no \<^verbatim>\<open>try\<close>: every error is raised inside a
  library call and travels up the call stack. The constructors name the errors by origin:
  decoding (\<^verbatim>\<open>librosa.load\<close>), a spectral transform (\<^verbatim>\<open>librosa.feature\<close>, \<^verbatim>\<open>librosa.effects\<close>),
  numpy or \<^verbatim>\<open>Tensor.item\<close> (\<^verbatim>\<open>ValueError\<close>), a tensor shape rejected by a layer, and a
  state dict that does not fit the architecture.
\<close>

datatype error = DecodeError | FeatureError | ValueError | ShapeError | WeightMismatchError

text \<open>
  The functions of librosa the source calls, as parameters; the arguments are those the source
  passes, in its order (\<^verbatim>\<open>y, sr, n_mfcc, n_fft, hop_length, win_length\<close>), and a keyword the
  source leaves out is passed with librosa's default. \<^verbatim>\<open>decode\<close> and \<^verbatim>\<open>native_rate\<close> are the two
  halves of \<^verbatim>\<open>librosa.load\<close>: the samples at the requested rate (or at the file's own rate for
  \<^verbatim>\<open>sr=None\<close>), and the rate of the file.
\<close>

record librosa =
  decode :: "string \<Rightarrow> nat option \<Rightarrow> error + waveform"
  native_rate :: "string \<Rightarrow> nat"
  mfcc :: "waveform \<Rightarrow> nat \<Rightarrow> nat \<Rightarrow> nat \<Rightarrow> nat \<Rightarrow> nat option \<Rightarrow> error + array2d"
  chroma_stft :: "waveform \<Rightarrow> nat \<Rightarrow> nat \<Rightarrow> nat \<Rightarrow> error + array2d"
  spectral_contrast :: "waveform \<Rightarrow> nat \<Rightarrow> nat \<Rightarrow> nat \<Rightarrow> error + array2d"
  rms :: "waveform \<Rightarrow> error + array2d"
  spectral_centroid :: "waveform \<Rightarrow> nat \<Rightarrow> error + array2d"
  spectral_bandwidth :: "waveform \<Rightarrow> nat \<Rightarrow> error + array2d"
  spectral_rolloff :: "waveform \<Rightarrow> nat \<Rightarrow> error + array2d"
  zero_crossing_rate :: "waveform \<Rightarrow> error + array2d"
  harmonic :: "waveform \<Rightarrow> error + waveform"
  percussive :: "waveform \<Rightarrow> error + waveform"
  tempo :: "waveform \<Rightarrow> nat \<Rightarrow> error + real list"

text \<open>The layers of \<^verbatim>\<open>torch.nn\<close>, for a batch of one sample.\<close>

record Conv1d =
  in_channels :: nat
  out_channels :: nat
  kernel_size :: nat
  conv_weight :: "real list list list"
  conv_bias :: "real list"

record BatchNorm1d =
  num_features :: nat
  bn_weight :: "real list"
  bn_bias :: "real list"
  running_mean :: "real list"
  running_var :: "real list"
  num_batches_tracked :: nat

record Linear =
  in_features :: nat
  out_features :: nat
  lin_weight :: "real list list"
  lin_bias :: "real list"

record Attention =
  feature_dim :: nat
  attention_0 :: Linear
  attention_2 :: Linear

record AudioNet =
  in_ch :: nat
  num_filters1 :: nat
  num_filters2 :: nat
  num_hidden :: nat
  out_size :: nat
  conv1_0 :: Conv1d
  conv1_1 :: BatchNorm1d
  conv2_0 :: Conv1d
  conv2_1 :: BatchNorm1d
  attention :: Attention
  fc1 :: Linear
  fc2 :: Linear
  to_linear :: nat
  training :: bool

text \<open>The tensors of a saved state dict, by key.\<close>

record state_dict =
  sd_conv1_0_weight :: "real list list list"
  sd_conv1_0_bias :: "real list"
  sd_conv1_1_weight :: "real list"
  sd_conv1_1_bias :: "real list"
  sd_conv1_1_running_mean :: "real list"
  sd_conv1_1_running_var :: "real list"
  sd_conv1_1_num_batches_tracked :: nat
  sd_conv2_0_weight :: "real list list list"
  sd_conv2_0_bias :: "real list"
  sd_conv2_1_weight :: "real list"
  sd_conv2_1_bias :: "real list"
  sd_conv2_1_running_mean :: "real list"
  sd_conv2_1_running_var :: "real list"
  sd_conv2_1_num_batches_tracked :: nat
  sd_attention_0_weight :: "real list list"
  sd_attention_0_bias :: "real list"
  sd_attention_2_weight :: "real list list"
  sd_attention_2_bias :: "real list"
  sd_fc1_weight :: "real list list"
  sd_fc1_bias :: "real list"
  sd_fc2_weight :: "real list list"
  sd_fc2_bias :: "real list"

text \<open>
  The global random generator of torch is a stream of random bits. \<^verbatim>\<open>torch.load\<close> and the random
  initialisation of a freshly constructed module are parameters.
\<close>

type_synonym generator = "bool stream"

record torch =
  torch_load :: "string \<Rightarrow> error + state_dict"
  random_init :: "(string \<times> nat) list \<Rightarrow> generator \<Rightarrow> state_dict \<times> generator"

text \<open>
  The effects of a call: the generator, and the library calls made so far with the arguments that
  matter here (the waveform a transform receives, the network and the tensor of a forward pass).
\<close>

datatype call =
    Call_load string "nat option"
  | Call_mfcc waveform
  | Call_chroma_stft waveform
  | Call_spectral_contrast waveform
  | Call_other string
  | Call_forward AudioNet array2d

record world =
  rng :: generator
  calls :: "call list"

definition record_call :: "call \<Rightarrow> world \<Rightarrow> world" where
  "record_call c w = w\<lparr>calls := calls w @ [c]\<rparr>"

text \<open>Running one step after another; an error ends the run, as a raised exception does.\<close>

definition and_then ::
  "(world \<Rightarrow> (error + 'a) \<times> world) \<Rightarrow> ('a \<Rightarrow> world \<Rightarrow> (error + 'b) \<times> world)
    \<Rightarrow> world \<Rightarrow> (error + 'b) \<times> world" where
  "and_then m f w = (case m w of (Inl e, w') \<Rightarrow> (Inl e, w') | (Inr x, w') \<Rightarrow> f x w')"

definition lib_call :: "call \<Rightarrow> error + 'a \<Rightarrow> world \<Rightarrow> (error + 'a) \<times> world" where
  "lib_call c r w = (r, record_call c w)"

definition librosa_load ::
  "librosa \<Rightarrow> string \<Rightarrow> nat option \<Rightarrow> world \<Rightarrow> (error + waveform \<times> nat) \<times> world" where
  "librosa_load L path sr =
     lib_call (Call_load path sr)
       (case decode L path sr of
          Inl e \<Rightarrow> Inl e
        | Inr y \<Rightarrow> Inr (y, case sr of Some r \<Rightarrow> r | None \<Rightarrow> native_rate L path))"

section \<open>Feature extraction for the affect networks\<close>

text \<open>
  Lines 85-87 (and again 134-136): \<^verbatim>\<open>np.pad(wave, (0, sr * 45 - len(wave)), 'constant')\<close> when the
  waveform is short, then \<^verbatim>\<open>wave[:sr * 45]\<close>.
\<close>

definition pad_truncate :: "nat \<Rightarrow> waveform \<Rightarrow> waveform" where
  "pad_truncate sr wave =
     take (sr * 45)
       (if length wave < sr * 45 then wave @ replicate (sr * 45 - length wave) 0 else wave)"

definition frames :: "array2d \<Rightarrow> nat" where
  "frames m = (case m of [] \<Rightarrow> 0 | r # _ \<Rightarrow> length r)"

text \<open>\<^verbatim>\<open>np.concatenate(arrays, axis=0)\<close> raises \<^verbatim>\<open>ValueError\<close> unless the arrays agree on axis 1.\<close>

definition np_concatenate :: "array2d list \<Rightarrow> error + array2d" where
  "np_concatenate arrays =
     (if \<forall>m \<in> set arrays. frames m = frames (hd arrays) then Inr (concat arrays)
      else Inl ValueError)"

text \<open>
  \<^verbatim>\<open>int(sr * 0.01)\<close> and \<^verbatim>\<open>int(sr * 0.025)\<close> in integer arithmetic: 441 and 1102 at 44100 Hz.
  The first module-level \<^verbatim>\<open>extract_features\<close> (line 83) returns the numpy array.
\<close>

definition extract_features_l83 ::
  "librosa \<Rightarrow> string \<Rightarrow> nat \<Rightarrow> world \<Rightarrow> (error + array2d) \<times> world" where
  "extract_features_l83 L audio_path sample_rate =
     and_then (librosa_load L audio_path (Some sample_rate)) (\<lambda>(wave0, sr).
       let wave = pad_truncate sr wave0;
           hop_length = sr div 100;
           win_length = sr * 25 div 1000
       in
       and_then (lib_call (Call_mfcc wave) (mfcc L wave sr 20 2048 hop_length (Some win_length)))
         (\<lambda>mfcc_out.
       and_then (lib_call (Call_chroma_stft wave) (chroma_stft L wave sr 2048 hop_length))
         (\<lambda>chroma.
       and_then (lib_call (Call_spectral_contrast wave) (spectral_contrast L wave sr 2048 hop_length))
         (\<lambda>contrast w. (np_concatenate [mfcc_out, chroma, contrast], w)))))"

text \<open>
  \<^verbatim>\<open>Predictor.extract_features\<close> (line 131) repeats that body with \<^verbatim>\<open>sample_rate = 44100\<close> and
  wraps the array as a tensor with a batch axis of size one, which the model leaves implicit.
\<close>

definition Predictor_extract_features ::
  "librosa \<Rightarrow> string \<Rightarrow> world \<Rightarrow> (error + array2d) \<times> world" where
  "Predictor_extract_features L audio_path =
     (let sample_rate = 44100 in
     and_then (librosa_load L audio_path (Some sample_rate)) (\<lambda>(wave0, sr).
       let wave = pad_truncate sr wave0;
           hop_length = sr div 100;
           win_length = sr * 25 div 1000
       in
       and_then (lib_call (Call_mfcc wave) (mfcc L wave sr 20 2048 hop_length (Some win_length)))
         (\<lambda>mfcc_out.
       and_then (lib_call (Call_chroma_stft wave) (chroma_stft L wave sr 2048 hop_length))
         (\<lambda>chroma.
       and_then (lib_call (Call_spectral_contrast wave) (spectral_contrast L wave sr 2048 hop_length))
         (\<lambda>contrast w. (np_concatenate [mfcc_out, chroma, contrast], w))))))"

section \<open>The affect networks\<close>

subsection \<open>Layers\<close>

definition dot :: "real list \<Rightarrow> real list \<Rightarrow> real" where
  "dot xs ys = sum_list (map2 (*) xs ys)"

text \<open>
  \<^verbatim>\<open>nn.Conv1d\<close> with stride 1 and no padding: the input must have \<^verbatim>\<open>in_channels\<close> channels and
  at least \<^verbatim>\<open>kernel_size\<close> frames.
\<close>

definition Conv1d_forward :: "Conv1d \<Rightarrow> array2d \<Rightarrow> error + array2d" where
  "Conv1d_forward c x =
     (if length x \<noteq> in_channels c \<or> frames x < kernel_size c then Inl ShapeError
      else Inr (map2
        (\<lambda>w_out b. map
           (\<lambda>t. b + sum_list (map2 (\<lambda>w_in row. dot w_in (take (kernel_size c) (drop t row))) w_out x))
           [0 ..< frames x - kernel_size c + 1])
        (conv_weight c) (conv_bias c)))"

definition np_mean :: "real list \<Rightarrow> real" where
  "np_mean xs = sum_list xs / real (length xs)"

definition np_var :: "real list \<Rightarrow> real" where
  "np_var xs = np_mean (map (\<lambda>x. (x - np_mean xs)\<^sup>2) xs)"

definition bn_eps :: real where
  "bn_eps = 1 / 100000"

definition bn_momentum :: real where
  "bn_momentum = 1 / 10"

definition normalize_rows ::
  "real list \<Rightarrow> real list \<Rightarrow> real list \<Rightarrow> real list \<Rightarrow> array2d \<Rightarrow> array2d" where
  "normalize_rows means vars weights biases x =
     map (\<lambda>(row, m, v, g, b). map (\<lambda>a. (a - m) / sqrt (v + bn_eps) * g + b) row)
       (zip x (zip means (zip vars (zip weights biases))))"

text \<open>
  \<^verbatim>\<open>nn.BatchNorm1d\<close>: in evaluation mode the running statistics normalise the input and the
  layer is left as it is; in training mode the statistics of the batch normalise it and the
  running statistics are moved towards them (with the unbiased variance).
\<close>

definition BatchNorm1d_forward ::
  "bool \<Rightarrow> BatchNorm1d \<Rightarrow> array2d \<Rightarrow> (error + array2d) \<times> BatchNorm1d" where
  "BatchNorm1d_forward train bn x =
     (if length x \<noteq> num_features bn then (Inl ShapeError, bn)
      else if \<not> train then
        (Inr (normalize_rows (running_mean bn) (running_var bn) (bn_weight bn) (bn_bias bn) x), bn)
      else if frames x \<le> 1 then (Inl ValueError, bn)
      else
        (let means = map np_mean x;
             vars = map np_var x;
             n = real (frames x);
             unbiased = map (\<lambda>v. v * n / (n - 1)) vars
         in (Inr (normalize_rows means vars (bn_weight bn) (bn_bias bn) x),
             bn\<lparr>running_mean :=
                   map2 (\<lambda>r m. (1 - bn_momentum) * r + bn_momentum * m) (running_mean bn) means,
                 running_var :=
                   map2 (\<lambda>r v. (1 - bn_momentum) * r + bn_momentum * v) (running_var bn) unbiased,
                 num_batches_tracked := num_batches_tracked bn + 1\<rparr>)))"

definition relu :: "array2d \<Rightarrow> array2d" where
  "relu x = map (map (max 0)) x"

text \<open>\<^verbatim>\<open>nn.AvgPool1d(kernel_size=k, stride=k)\<close>.\<close>

definition AvgPool1d_forward :: "nat \<Rightarrow> array2d \<Rightarrow> error + array2d" where
  "AvgPool1d_forward k x =
     (if frames x < k then Inl ShapeError
      else Inr (map
        (\<lambda>row. map (\<lambda>t. sum_list (take k (drop (t * k) row)) / real k)
           [0 ..< (frames x - k) div k + 1])
        x))"

text \<open>\<^verbatim>\<open>x.view(-1, n)\<close>: the elements in row-major order, cut into rows of \<^verbatim>\<open>n\<close>.\<close>

definition view :: "nat \<Rightarrow> array2d \<Rightarrow> error + array2d" where
  "view n x =
     (let flat = concat x in
      if n = 0 \<or> length flat mod n \<noteq> 0 then Inl ShapeError
      else Inr (map (\<lambda>i. take n (drop (i * n) flat)) [0 ..< length flat div n]))"

definition Linear_forward :: "Linear \<Rightarrow> array2d \<Rightarrow> error + array2d" where
  "Linear_forward l x =
     (if \<exists>row \<in> set x. length row \<noteq> in_features l then Inl ShapeError
      else Inr (map (\<lambda>row. map2 (\<lambda>w b. dot w row + b) (lin_weight l) (lin_bias l)) x))"

text \<open>\<^verbatim>\<open>F.softmax(scores, dim=1)\<close>.\<close>

definition softmax :: "array2d \<Rightarrow> array2d" where
  "softmax scores = map (\<lambda>row. map (\<lambda>s. exp s / sum_list (map exp row)) row) scores"

text \<open>
  \<^verbatim>\<open>nn.Dropout(p=0.5)\<close>: in training mode every element is dropped or doubled, one random bit
  each; in evaluation mode the layer is the identity and the generator is not touched.
\<close>

fun drop_rows :: "array2d \<Rightarrow> generator \<Rightarrow> array2d \<times> generator" where
  "drop_rows [] g = ([], g)"
| "drop_rows (row # rest) g =
     (let (rest', g') = drop_rows rest (sdrop (length row) g)
      in (map2 (\<lambda>keep a. if keep then 2 * a else 0) (stake (length row) g) row # rest', g'))"

definition Dropout_forward :: "bool \<Rightarrow> array2d \<Rightarrow> generator \<Rightarrow> array2d \<times> generator" where
  "Dropout_forward train x g = (if train then drop_rows x g else (x, g))"

subsection \<open>\<^verbatim>\<open>Attention\<close> and \<^verbatim>\<open>AudioNet\<close>\<close>

text \<open>
  \<^verbatim>\<open>Attention.forward\<close>: \<^verbatim>\<open>self.attention\<close> is \<^verbatim>\<open>Linear\<close>, \<^verbatim>\<open>ReLU\<close>, \<^verbatim>\<open>Linear\<close>; the product
  \<^verbatim>\<open>x * alpha\<close> is elementwise, an axis of size one being broadcast over the other operand's.
\<close>

definition mul_rows :: "real list \<Rightarrow> real list \<Rightarrow> real list" where
  "mul_rows row al =
     (if length al = length row then map2 (*) row al
      else if length al = 1 then map (\<lambda>a. a * hd al) row
      else map (\<lambda>s. hd row * s) al)"

definition broadcast_mul :: "array2d \<Rightarrow> array2d \<Rightarrow> error + array2d" where
  "broadcast_mul x alpha =
     (if frames alpha = frames x \<or> frames alpha = 1 \<or> frames x = 1
      then Inr (map2 mul_rows x alpha)
      else Inl ShapeError)"

definition Attention_forward :: "Attention \<Rightarrow> array2d \<Rightarrow> error + array2d" where
  "Attention_forward att x =
     (case Linear_forward (attention_0 att) x of
        Inl e \<Rightarrow> Inl e
      | Inr h \<Rightarrow>
     (case Linear_forward (attention_2 att) (relu h) of
        Inl e \<Rightarrow> Inl e
      | Inr scores \<Rightarrow>
     (case broadcast_mul x (softmax scores) of
        Inl e \<Rightarrow> Inl e
      | Inr attended_features \<Rightarrow> view (feature_dim att) attended_features)))"

text \<open>The blocks \<^verbatim>\<open>self.conv1\<close> and \<^verbatim>\<open>self.conv2\<close>: convolution, batch norm, ReLU, average pool.\<close>

definition conv_block ::
  "bool \<Rightarrow> Conv1d \<Rightarrow> BatchNorm1d \<Rightarrow> array2d \<Rightarrow> (error + array2d) \<times> BatchNorm1d" where
  "conv_block train conv bn x =
     (case Conv1d_forward conv x of
        Inl e \<Rightarrow> (Inl e, bn)
      | Inr y \<Rightarrow>
     (case BatchNorm1d_forward train bn y of
        (Inl e, bn') \<Rightarrow> (Inl e, bn')
      | (Inr z, bn') \<Rightarrow> (AvgPool1d_forward 2 (relu z), bn')))"

text \<open>
  \<^verbatim>\<open>AudioNet.forward\<close>. It returns the output, the network (whose batch-norm buffers a pass in
  training mode changes) and the generator. \<^verbatim>\<open>_get_to_linear\<close> returns the value cached by the
  constructor.
\<close>

definition AudioNet_forward ::
  "AudioNet \<Rightarrow> array2d \<Rightarrow> generator \<Rightarrow> (error + array2d) \<times> AudioNet \<times> generator" where
  "AudioNet_forward net x g =
     (case conv_block (training net) (conv1_0 net) (conv1_1 net) x of
        (Inl e, bn1) \<Rightarrow> (Inl e, net\<lparr>conv1_1 := bn1\<rparr>, g)
      | (Inr x1, bn1) \<Rightarrow>
     (case conv_block (training net) (conv2_0 net) (conv2_1 net) x1 of
        (Inl e, bn2) \<Rightarrow> (Inl e, net\<lparr>conv1_1 := bn1, conv2_1 := bn2\<rparr>, g)
      | (Inr x2, bn2) \<Rightarrow>
        let net' = net\<lparr>conv1_1 := bn1, conv2_1 := bn2\<rparr> in
     (case AvgPool1d_forward 10 x2 of
        Inl e \<Rightarrow> (Inl e, net', g)
      | Inr x3 \<Rightarrow>
     (case view (to_linear net) x3 of
        Inl e \<Rightarrow> (Inl e, net', g)
      | Inr x4 \<Rightarrow>
     (case Attention_forward (attention net) x4 of
        Inl e \<Rightarrow> (Inl e, net', g)
      | Inr x5 \<Rightarrow>
     (case Linear_forward (fc1 net) x5 of
        Inl e \<Rightarrow> (Inl e, net', g)
      | Inr x6 \<Rightarrow>
     (case Dropout_forward (training net) x6 g of
        (x7, g') \<Rightarrow>
     (case Linear_forward (fc2 net) (relu x7) of
        Inl e \<Rightarrow> (Inl e, net', g')
      | Inr x8 \<Rightarrow> (Inr x8, net', g')))))))))"

text \<open>Calling a module: the call is recorded, the forward pass draws from the generator.\<close>

definition AudioNet_call ::
  "AudioNet \<Rightarrow> array2d \<Rightarrow> world \<Rightarrow> (error + array2d) \<times> AudioNet \<times> world" where
  "AudioNet_call net x w =
     (case AudioNet_forward net x (rng w) of
        (r, net', g') \<Rightarrow> (r, net', (record_call (Call_forward net x) w)\<lparr>rng := g'\<rparr>))"

subsection \<open>Construction and loading\<close>

text \<open>\<^verbatim>\<open>params_dict.get(key, default)\<close>.\<close>

definition params_get :: "(string \<times> nat) list \<Rightarrow> string \<Rightarrow> nat \<Rightarrow> nat" where
  "params_get params_dict k d = (case map_of params_dict k of Some v \<Rightarrow> v | None \<Rightarrow> d)"

definition conv_len :: "nat \<Rightarrow> nat \<Rightarrow> nat" where
  "conv_len k n = n - k + 1"

definition pool_len :: "nat \<Rightarrow> nat \<Rightarrow> nat" where
  "pool_len k n = (n - k) div k + 1"

text \<open>
  \<^verbatim>\<open>_get_to_linear\<close> pushes a random tensor of 4501 frames through \<^verbatim>\<open>conv1\<close>, \<^verbatim>\<open>conv2\<close> and
  \<^verbatim>\<open>pool\<close> and counts the elements of the result: a number that depends on the shapes only.
\<close>

definition get_to_linear :: "nat \<Rightarrow> nat" where
  "get_to_linear filters2 =
     filters2 * pool_len 10 (pool_len 2 (conv_len 10 (pool_len 2 (conv_len 10 4501))))"

text \<open>
  \<^verbatim>\<open>AudioNet.__init__\<close>: the layers get the declared sizes, the tensors are those of the random
  initialisation, and a fresh module is in training mode.
\<close>

definition AudioNet_init :: "(string \<times> nat) list \<Rightarrow> state_dict \<Rightarrow> AudioNet" where
  "AudioNet_init params_dict init =
     (let i = params_get params_dict ''in_ch'' 1;
          f1 = params_get params_dict ''num_filters1'' 32;
          f2 = params_get params_dict ''num_filters2'' 64;
          h = params_get params_dict ''num_hidden'' 128;
          out = params_get params_dict ''out_size'' 1;
          n = get_to_linear f2
      in \<lparr>in_ch = i, num_filters1 = f1, num_filters2 = f2, num_hidden = h, out_size = out,
          conv1_0 = \<lparr>in_channels = i, out_channels = f1, kernel_size = 10,
                     conv_weight = sd_conv1_0_weight init, conv_bias = sd_conv1_0_bias init\<rparr>,
          conv1_1 = \<lparr>num_features = f1,
                     bn_weight = sd_conv1_1_weight init, bn_bias = sd_conv1_1_bias init,
                     running_mean = sd_conv1_1_running_mean init,
                     running_var = sd_conv1_1_running_var init,
                     num_batches_tracked = sd_conv1_1_num_batches_tracked init\<rparr>,
          conv2_0 = \<lparr>in_channels = f1, out_channels = f2, kernel_size = 10,
                     conv_weight = sd_conv2_0_weight init, conv_bias = sd_conv2_0_bias init\<rparr>,
          conv2_1 = \<lparr>num_features = f2,
                     bn_weight = sd_conv2_1_weight init, bn_bias = sd_conv2_1_bias init,
                     running_mean = sd_conv2_1_running_mean init,
                     running_var = sd_conv2_1_running_var init,
                     num_batches_tracked = sd_conv2_1_num_batches_tracked init\<rparr>,
          attention = \<lparr>feature_dim = n,
                     attention_0 = \<lparr>in_features = n, out_features = 64,
                        lin_weight = sd_attention_0_weight init,
                        lin_bias = sd_attention_0_bias init\<rparr>,
                     attention_2 = \<lparr>in_features = 64, out_features = 1,
                        lin_weight = sd_attention_2_weight init,
                        lin_bias = sd_attention_2_bias init\<rparr>\<rparr>,
          fc1 = \<lparr>in_features = n, out_features = h,
                 lin_weight = sd_fc1_weight init, lin_bias = sd_fc1_bias init\<rparr>,
          fc2 = \<lparr>in_features = h, out_features = out,
                 lin_weight = sd_fc2_weight init, lin_bias = sd_fc2_bias init\<rparr>,
          to_linear = n, training = True\<rparr>)"

definition shape2 :: "nat \<Rightarrow> nat \<Rightarrow> real list list \<Rightarrow> bool" where
  "shape2 r c m \<longleftrightarrow> length m = r \<and> (\<forall>row \<in> set m. length row = c)"

definition shape3 :: "nat \<Rightarrow> nat \<Rightarrow> nat \<Rightarrow> real list list list \<Rightarrow> bool" where
  "shape3 a r c t \<longleftrightarrow> length t = a \<and> (\<forall>m \<in> set t. shape2 r c m)"

definition Conv1d_fits :: "Conv1d \<Rightarrow> real list list list \<Rightarrow> real list \<Rightarrow> bool" where
  "Conv1d_fits c w b \<longleftrightarrow>
     shape3 (out_channels c) (in_channels c) (kernel_size c) w \<and> length b = out_channels c"

definition BatchNorm1d_fits ::
  "BatchNorm1d \<Rightarrow> real list \<Rightarrow> real list \<Rightarrow> real list \<Rightarrow> real list \<Rightarrow> bool" where
  "BatchNorm1d_fits bn w b m v \<longleftrightarrow>
     length w = num_features bn \<and> length b = num_features bn
     \<and> length m = num_features bn \<and> length v = num_features bn"

definition Linear_fits :: "Linear \<Rightarrow> real list list \<Rightarrow> real list \<Rightarrow> bool" where
  "Linear_fits l w b \<longleftrightarrow> shape2 (out_features l) (in_features l) w \<and> length b = out_features l"

text \<open>
  \<^verbatim>\<open>load_state_dict\<close> (strict): every tensor of the module is replaced by the saved one, buffers
  included, or the call fails when a shape does not fit.
\<close>

definition load_state_dict :: "AudioNet \<Rightarrow> state_dict \<Rightarrow> error + AudioNet" where
  "load_state_dict net sd =
     (if Conv1d_fits (conv1_0 net) (sd_conv1_0_weight sd) (sd_conv1_0_bias sd)
       \<and> BatchNorm1d_fits (conv1_1 net) (sd_conv1_1_weight sd) (sd_conv1_1_bias sd)
            (sd_conv1_1_running_mean sd) (sd_conv1_1_running_var sd)
       \<and> Conv1d_fits (conv2_0 net) (sd_conv2_0_weight sd) (sd_conv2_0_bias sd)
       \<and> BatchNorm1d_fits (conv2_1 net) (sd_conv2_1_weight sd) (sd_conv2_1_bias sd)
            (sd_conv2_1_running_mean sd) (sd_conv2_1_running_var sd)
       \<and> Linear_fits (attention_0 (attention net)) (sd_attention_0_weight sd) (sd_attention_0_bias sd)
       \<and> Linear_fits (attention_2 (attention net)) (sd_attention_2_weight sd) (sd_attention_2_bias sd)
       \<and> Linear_fits (fc1 net) (sd_fc1_weight sd) (sd_fc1_bias sd)
       \<and> Linear_fits (fc2 net) (sd_fc2_weight sd) (sd_fc2_bias sd)
      then Inr (net\<lparr>
        conv1_0 := (conv1_0 net)\<lparr>conv_weight := sd_conv1_0_weight sd,
                                  conv_bias := sd_conv1_0_bias sd\<rparr>,
        conv1_1 := (conv1_1 net)\<lparr>bn_weight := sd_conv1_1_weight sd, bn_bias := sd_conv1_1_bias sd,
                                  running_mean := sd_conv1_1_running_mean sd,
                                  running_var := sd_conv1_1_running_var sd,
                                  num_batches_tracked := sd_conv1_1_num_batches_tracked sd\<rparr>,
        conv2_0 := (conv2_0 net)\<lparr>conv_weight := sd_conv2_0_weight sd,
                                  conv_bias := sd_conv2_0_bias sd\<rparr>,
        conv2_1 := (conv2_1 net)\<lparr>bn_weight := sd_conv2_1_weight sd, bn_bias := sd_conv2_1_bias sd,
                                  running_mean := sd_conv2_1_running_mean sd,
                                  running_var := sd_conv2_1_running_var sd,
                                  num_batches_tracked := sd_conv2_1_num_batches_tracked sd\<rparr>,
        attention := (attention net)\<lparr>
          attention_0 := (attention_0 (attention net))\<lparr>lin_weight := sd_attention_0_weight sd,
                                                       lin_bias := sd_attention_0_bias sd\<rparr>,
          attention_2 := (attention_2 (attention net))\<lparr>lin_weight := sd_attention_2_weight sd,
                                                       lin_bias := sd_attention_2_bias sd\<rparr>\<rparr>,
        fc1 := (fc1 net)\<lparr>lin_weight := sd_fc1_weight sd, lin_bias := sd_fc1_bias sd\<rparr>,
        fc2 := (fc2 net)\<lparr>lin_weight := sd_fc2_weight sd, lin_bias := sd_fc2_bias sd\<rparr>\<rparr>)
      else Inl WeightMismatchError)"

definition AudioNet_eval :: "AudioNet \<Rightarrow> AudioNet" where
  "AudioNet_eval net = net\<lparr>training := False\<rparr>"

section \<open>\<^verbatim>\<open>Predictor\<close>\<close>

record Predictor =
  model_path_valence :: string
  model_path_arousal :: string
  valence_model :: AudioNet
  arousal_model :: AudioNet

definition valence_params :: "(string \<times> nat) list" where
  "valence_params =
     [(''in_ch'', 39), (''num_filters1'', 32), (''num_filters2'', 64), (''num_hidden'', 64),
      (''out_size'', 1)]"

definition arousal_params :: "(string \<times> nat) list" where
  "arousal_params =
     [(''in_ch'', 39), (''num_filters1'', 32), (''num_filters2'', 32), (''num_hidden'', 128),
      (''out_size'', 1)]"

text \<open>
  \<^verbatim>\<open>Predictor.load_model\<close>: construct (drawing the initial tensors from the generator), load the
  saved tensors, switch to evaluation mode. Moving a module to a device changes no value.
\<close>

definition load_model ::
  "torch \<Rightarrow> string \<Rightarrow> (string \<times> nat) list \<Rightarrow> world \<Rightarrow> (error + AudioNet) \<times> world" where
  "load_model T model_path params w =
     (case random_init T params (rng w) of
        (init, g') \<Rightarrow>
          let model = AudioNet_init params init;
              w' = w\<lparr>rng := g'\<rparr>
          in
     (case torch_load T model_path of
        Inl e \<Rightarrow> (Inl e, w')
      | Inr sd \<Rightarrow>
     (case load_state_dict model sd of
        Inl e \<Rightarrow> (Inl e, w')
      | Inr model' \<Rightarrow> (Inr (AudioNet_eval model'), w'))))"

definition Predictor_init ::
  "torch \<Rightarrow> string \<Rightarrow> string \<Rightarrow> world \<Rightarrow> (error + Predictor) \<times> world" where
  "Predictor_init T path_valence path_arousal =
     and_then (load_model T path_valence valence_params) (\<lambda>vm.
     and_then (load_model T path_arousal arousal_params) (\<lambda>am w.
       (Inr \<lparr>model_path_valence = path_valence, model_path_arousal = path_arousal,
             valence_model = vm, arousal_model = am\<rparr>, w)))"

text \<open>\<^verbatim>\<open>Tensor.item()\<close>: the one element of a tensor that has exactly one.\<close>

definition item :: "array2d \<Rightarrow> error + real" where
  "item t = (case concat t of [v] \<Rightarrow> Inr v | _ \<Rightarrow> Inl ValueError)"

text \<open>
  \<^verbatim>\<open>Predictor.predict\<close>: one call of \<^verbatim>\<open>self.extract_features\<close>, then both networks on its result,
  then both \<^verbatim>\<open>item()\<close>. There is no handler: the first error ends the call. The predictor is
  returned with the networks as the passes left them.
\<close>

definition Predictor_predict ::
  "librosa \<Rightarrow> Predictor \<Rightarrow> string \<Rightarrow> world \<Rightarrow> (error + real \<times> real) \<times> Predictor \<times> world" where
  "Predictor_predict L self audio_path w =
     (case Predictor_extract_features L audio_path w of
        (Inl e, w1) \<Rightarrow> (Inl e, self, w1)
      | (Inr features, w1) \<Rightarrow>
     (case AudioNet_call (valence_model self) features w1 of
        (Inl e, vm, w2) \<Rightarrow> (Inl e, self\<lparr>valence_model := vm\<rparr>, w2)
      | (Inr valence_prediction, vm, w2) \<Rightarrow>
     (case AudioNet_call (arousal_model self) features w2 of
        (Inl e, am, w3) \<Rightarrow> (Inl e, self\<lparr>valence_model := vm, arousal_model := am\<rparr>, w3)
      | (Inr arousal_prediction, am, w3) \<Rightarrow>
        let self' = self\<lparr>valence_model := vm, arousal_model := am\<rparr> in
     (case item valence_prediction of
        Inl e \<Rightarrow> (Inl e, self', w3)
      | Inr v \<Rightarrow>
     (case item arousal_prediction of
        Inl e \<Rightarrow> (Inl e, self', w3)
      | Inr a \<Rightarrow> (Inr (v, a), self', w3))))))"

section \<open>The genre feature extractor\<close>

text \<open>
  The second module-level \<^verbatim>\<open>extract_features\<close> (line 284): the list \<^verbatim>\<open>features\<close> grows by two
  statistics per descriptor, by one for the tempo, and by two per row of \<^verbatim>\<open>mfccs\<close>. The
  transforms are called with librosa's defaults (\<^verbatim>\<open>n_fft=2048\<close>, \<^verbatim>\<open>hop_length=512\<close>).
\<close>

definition stats :: "array2d \<Rightarrow> real list" where
  "stats m = [np_mean (concat m), np_var (concat m)]"

definition extract_features_l284 ::
  "librosa \<Rightarrow> string \<Rightarrow> world \<Rightarrow> (error + real list) \<times> world" where
  "extract_features_l284 L audio_path =
     and_then (librosa_load L audio_path None) (\<lambda>(y, sr).
     let features = [] in
     and_then (lib_call (Call_chroma_stft y) (chroma_stft L y sr 2048 512)) (\<lambda>chroma.
     let features = features @ stats chroma in
     and_then (lib_call (Call_other ''rms'') (rms L y)) (\<lambda>rms_out.
     let features = features @ stats rms_out in
     and_then (lib_call (Call_other ''spectral_centroid'') (spectral_centroid L y sr)) (\<lambda>spec_centroid.
     let features = features @ stats spec_centroid in
     and_then (lib_call (Call_other ''spectral_bandwidth'') (spectral_bandwidth L y sr)) (\<lambda>spec_bandwidth.
     let features = features @ stats spec_bandwidth in
     and_then (lib_call (Call_other ''spectral_rolloff'') (spectral_rolloff L y sr)) (\<lambda>rolloff.
     let features = features @ stats rolloff in
     and_then (lib_call (Call_other ''zero_crossing_rate'') (zero_crossing_rate L y)) (\<lambda>zero_cross_rate.
     let features = features @ stats zero_cross_rate in
     and_then (lib_call (Call_other ''harmonic'') (harmonic L y)) (\<lambda>harmony.
     let features = features @ [np_mean harmony, np_var harmony] in
     and_then (lib_call (Call_other ''percussive'') (percussive L y)) (\<lambda>perc.
     let features = features @ [np_mean perc, np_var perc] in
     and_then (lib_call (Call_other ''tempo'') (tempo L y sr)) (\<lambda>tempo_out.
     let features = features @ [np_mean tempo_out] in
     and_then (lib_call (Call_mfcc y) (mfcc L y sr 20 2048 512 None)) (\<lambda>mfccs w.
     (Inr (features @ concat (map (\<lambda>row. [np_mean row, np_var row]) mfccs)), w))))))))))))"

section \<open>The module namespace\<close>

text \<open>
  Loading the module runs its top-level statements in order; an \<^verbatim>\<open>import\<close>, a \<^verbatim>\<open>class\<close>, a
  \<^verbatim>\<open>def\<close> and an assignment each bind a name in the module's globals, a later binding replacing
  an earlier one. A function object is identified by the line of its \<^verbatim>\<open>def\<close>.
\<close>

datatype py_object = Imported string | Class string | Function string nat | Value string

definition module_statements :: "(string \<times> py_object) list" where
  "module_statements = [
     (''st'', Imported ''streamlit''), (''librosa'', Imported ''librosa''),
     (''np'', Imported ''numpy''), (''pd'', Imported ''pandas''), (''math'', Imported ''math''),
     (''alt'', Imported ''altair''), (''os'', Imported ''os''), (''torch'', Imported ''torch''),
     (''nn'', Imported ''torch.nn''), (''F'', Imported ''torch.nn.functional''),
     (''MusicOnTrajectory'', Imported ''shapes.MusicOnTrajectory''),
     (''Line'', Imported ''shapes.Line''), (''Circle'', Imported ''shapes.Circle''),
     (''Triangle'', Imported ''shapes.Triangle''), (''Parabola'', Imported ''shapes.Parabola''),
     (''Attention'', Class ''Attention''),
     (''AudioNet'', Class ''AudioNet''),
     (''extract_features'', Function ''extract_features'' 83),
     (''predict'', Function ''predict'' 99),
     (''Predictor'', Class ''Predictor''),
     (''emotions'', Value ''emotions''),
     (''find_emotion'', Function ''find_emotion'' 194),
     (''clustered_emotions'', Value ''clustered_emotions''),
     (''get_colormap'', Function ''get_colormap'' 238),
     (''normalize_value'', Function ''normalize_value'' 246),
     (''torch'', Imported ''torch''), (''nn'', Imported ''torch.nn''),
     (''MusicGenreClassifier'', Class ''MusicGenreClassifier''),
     (''model'', Value ''model''),
     (''extract_features'', Function ''extract_features'' 284),
     (''df'', Value ''df''),
     (''main'', Function ''main'' 316)]"

definition bind_names :: "(string \<times> py_object) list \<Rightarrow> (string \<rightharpoonup> py_object) \<Rightarrow> (string \<rightharpoonup> py_object)" where
  "bind_names statements globals = foldl (\<lambda>g (name, obj). g(name \<mapsto> obj)) globals statements"

definition module_globals :: "string \<rightharpoonup> py_object" where
  "module_globals = bind_names module_statements Map.empty"

text \<open>The body of \<^verbatim>\<open>class Predictor\<close> binds its four methods in the namespace of the class.\<close>

definition class_Predictor :: "string \<rightharpoonup> py_object" where
  "class_Predictor = bind_names
     [(''__init__'', Function ''__init__'' 109), (''load_model'', Function ''load_model'' 124),
      (''extract_features'', Function ''extract_features'' 131),
      (''predict'', Function ''predict'' 149)] Map.empty"

text \<open>
  What calling one of the three feature extractors with an audio path computes; the function of
  line 83 is called with its default \<^verbatim>\<open>sample_rate=44100\<close>.
\<close>

datatype extracted = Descriptor array2d | Feature_vector "real list"

definition returning ::
  "('a \<Rightarrow> 'b) \<Rightarrow> (world \<Rightarrow> (error + 'a) \<times> world) \<Rightarrow> world \<Rightarrow> (error + 'b) \<times> world" where
  "returning f m = and_then m (\<lambda>x w. (Inr (f x), w))"

definition call_extractor ::
  "librosa \<Rightarrow> py_object \<Rightarrow> string \<Rightarrow> world \<Rightarrow> (error + extracted) \<times> world" where
  "call_extractor L f audio_path =
     (if f = Function ''extract_features'' 83
        then returning Descriptor (extract_features_l83 L audio_path 44100)
      else if f = Function ''extract_features'' 131
        then returning Descriptor (Predictor_extract_features L audio_path)
      else if f = Function ''extract_features'' 284
        then returning Feature_vector (extract_features_l284 L audio_path)
      else (\<lambda>w. (Inl ValueError, w)))"

section \<open>Library contracts and stand-ins\<close>

text \<open>
  The shapes librosa documents for the three transforms of the affect descriptor: \<^verbatim>\<open>n_mfcc\<close>
  cepstral rows, 12 chroma rows, 7 contrast rows (\<^verbatim>\<open>n_bands + 1\<close> with the default of 6 bands), and
  with centred frames \<^verbatim>\<open>1 + len(y) // hop_length\<close> columns.
\<close>

definition librosa_shapes :: "librosa \<Rightarrow> bool" where
  "librosa_shapes L \<longleftrightarrow>
     (\<forall>y sr n_mfcc n_fft hop win m.
        mfcc L y sr n_mfcc n_fft hop win = Inr m \<longrightarrow> shape2 n_mfcc (1 + length y div hop) m)
   \<and> (\<forall>y sr n_fft hop m.
        chroma_stft L y sr n_fft hop = Inr m \<longrightarrow> shape2 12 (1 + length y div hop) m)
   \<and> (\<forall>y sr n_fft hop m.
        spectral_contrast L y sr n_fft hop = Inr m \<longrightarrow> shape2 7 (1 + length y div hop) m)"

definition transform_input :: "call \<Rightarrow> waveform option" where
  "transform_input c =
     (case c of Call_mfcc y \<Rightarrow> Some y | Call_chroma_stft y \<Rightarrow> Some y
      | Call_spectral_contrast y \<Rightarrow> Some y | _ \<Rightarrow> None)"

definition transform_inputs :: "call list \<Rightarrow> waveform list" where
  "transform_inputs cs = List.map_filter transform_input cs"

definition is_load :: "call \<Rightarrow> bool" where
  "is_load c = (case c of Call_load _ _ \<Rightarrow> True | _ \<Rightarrow> False)"

definition forward_inputs :: "call list \<Rightarrow> array2d list" where
  "forward_inputs cs = List.map_filter (\<lambda>c. case c of Call_forward _ x \<Rightarrow> Some x | _ \<Rightarrow> None) cs"

definition zeros :: "nat \<Rightarrow> nat \<Rightarrow> array2d" where
  "zeros r c = replicate r (replicate c 0)"

text \<open>
  A stand-in for librosa: every file decodes to the given clip (or fails to decode when there is
  none), a transform rejects an empty waveform and otherwise returns zeros of the documented shape.
\<close>

definition stub_librosa :: "waveform option \<Rightarrow> librosa" where
  "stub_librosa clip =
     \<lparr>decode = (\<lambda>path sr. case clip of None \<Rightarrow> Inl DecodeError | Some y \<Rightarrow> Inr y),
      native_rate = (\<lambda>path. 22050),
      mfcc = (\<lambda>y sr n_mfcc n_fft hop win.
         if y = [] then Inl FeatureError else Inr (zeros n_mfcc (1 + length y div hop))),
      chroma_stft = (\<lambda>y sr n_fft hop.
         if y = [] then Inl FeatureError else Inr (zeros 12 (1 + length y div hop))),
      spectral_contrast = (\<lambda>y sr n_fft hop.
         if y = [] then Inl FeatureError else Inr (zeros 7 (1 + length y div hop))),
      rms = (\<lambda>y. Inr (zeros 1 (1 + length y div 512))),
      spectral_centroid = (\<lambda>y sr. Inr (zeros 1 (1 + length y div 512))),
      spectral_bandwidth = (\<lambda>y sr. Inr (zeros 1 (1 + length y div 512))),
      spectral_rolloff = (\<lambda>y sr. Inr (zeros 1 (1 + length y div 512))),
      zero_crossing_rate = (\<lambda>y. Inr (zeros 1 (1 + length y div 512))),
      harmonic = (\<lambda>y. Inr y),
      percussive = (\<lambda>y. Inr (map (\<lambda>a. 0) y)),
      tempo = (\<lambda>y sr. Inr (replicate (1 + length y div 512) 120))\<rparr>"

text \<open>
  A stand-in for torch: a saved state dict of the right shapes whose network answers with a
  constant (all weights zero, unit variances, the bias of the last layer the constant).
\<close>

definition constant_state_dict :: "nat \<Rightarrow> nat \<Rightarrow> nat \<Rightarrow> nat \<Rightarrow> real \<Rightarrow> state_dict" where
  "constant_state_dict i f1 f2 h b =
     \<lparr>sd_conv1_0_weight = replicate f1 (zeros i 10), sd_conv1_0_bias = replicate f1 0,
      sd_conv1_1_weight = replicate f1 1, sd_conv1_1_bias = replicate f1 0,
      sd_conv1_1_running_mean = replicate f1 0, sd_conv1_1_running_var = replicate f1 1,
      sd_conv1_1_num_batches_tracked = 0,
      sd_conv2_0_weight = replicate f2 (zeros f1 10), sd_conv2_0_bias = replicate f2 0,
      sd_conv2_1_weight = replicate f2 1, sd_conv2_1_bias = replicate f2 0,
      sd_conv2_1_running_mean = replicate f2 0, sd_conv2_1_running_var = replicate f2 1,
      sd_conv2_1_num_batches_tracked = 0,
      sd_attention_0_weight = zeros 64 (get_to_linear f2), sd_attention_0_bias = replicate 64 0,
      sd_attention_2_weight = zeros 1 64, sd_attention_2_bias = [0],
      sd_fc1_weight = zeros h (get_to_linear f2), sd_fc1_bias = replicate h 0,
      sd_fc2_weight = zeros 1 h, sd_fc2_bias = [b]\<rparr>"

definition stub_torch :: torch where
  "stub_torch =
     \<lparr>torch_load = (\<lambda>path.
         if path = ''valence.pth'' then Inr (constant_state_dict 39 32 64 64 3)
         else if path = ''arousal.pth'' then Inr (constant_state_dict 39 32 32 128 5)
         else Inl DecodeError),
      random_init = (\<lambda>params g.
         (constant_state_dict (params_get params ''in_ch'' 1) (params_get params ''num_filters1'' 32)
            (params_get params ''num_filters2'' 64) (params_get params ''num_hidden'' 128)
            (if shd g then 1 else 0), stl g))\<rparr>"

definition world0 :: world where
  "world0 = \<lparr>rng = sconst True, calls = []\<rparr>"

text \<open>The predictor that loading from the stand-in gives.\<close>

definition stub_predictor :: Predictor where
  "stub_predictor =
     \<lparr>model_path_valence = ''valence.pth'', model_path_arousal = ''arousal.pth'',
      valence_model = AudioNet_eval (AudioNet_init valence_params (constant_state_dict 39 32 64 64 3)),
      arousal_model = AudioNet_eval (AudioNet_init arousal_params (constant_state_dict 39 32 32 128 5))\<rparr>"


section \<open>Properties of the emotion mapping\<close>

lemma find_emotion_loop_append:
  "find_emotion_loop v a (xs @ ys) st = find_emotion_loop v a ys (find_emotion_loop v a xs st)"
  by (induction v a xs st rule: find_emotion_loop.induct) simp_all

lemma find_emotion_loop_first_min:
  "xs \<noteq> [] \<Longrightarrow>
   \<exists>i<length xs.
     find_emotion_loop v a xs (None, Infinity) = (Some (fst (xs ! i)), Finite (distance v a (snd (xs ! i))))
     \<and> (\<forall>j<length xs. distance v a (snd (xs ! i)) \<le> distance v a (snd (xs ! j)))
     \<and> (\<forall>j<i. distance v a (snd (xs ! i)) < distance v a (snd (xs ! j)))"
proof (induction xs rule: rev_induct)
  case Nil
  then show ?case by simp
next
  case (snoc x xs)
  obtain e sc where x: "x = (e, sc)" by (cases x)
  show ?case
  proof (cases "xs = []")
    case True
    then show ?thesis using x by simp
  next
    case False
    from snoc.IH[OF False] obtain i where i: "i < length xs"
      and res: "find_emotion_loop v a xs (None, Infinity) = (Some (fst (xs ! i)), Finite (distance v a (snd (xs ! i))))"
      and mn: "\<forall>j<length xs. distance v a (snd (xs ! i)) \<le> distance v a (snd (xs ! j))"
      and st: "\<forall>j<i. distance v a (snd (xs ! i)) < distance v a (snd (xs ! j))"
      by blast
    show ?thesis
    proof (cases "distance v a sc < distance v a (snd (xs ! i))")
      case True
      have "find_emotion_loop v a (xs @ [x]) (None, Infinity) = (Some e, Finite (distance v a sc))"
        using True res x by (simp add: find_emotion_loop_append)
      moreover have "\<forall>j<length (xs @ [x]). distance v a sc \<le> distance v a (snd ((xs @ [x]) ! j))"
        using True mn x by (auto simp: nth_append less_Suc_eq intro: less_imp_le order.trans)
      moreover have "\<forall>j<length xs. distance v a sc < distance v a (snd ((xs @ [x]) ! j))"
        using True mn by (auto simp: nth_append intro: less_le_trans)
      ultimately show ?thesis using x
        by (intro exI[of _ "length xs"]) simp
    next
      case False
      have "find_emotion_loop v a (xs @ [x]) (None, Infinity) = (Some (fst (xs ! i)), Finite (distance v a (snd (xs ! i))))"
        using False res x by (simp add: find_emotion_loop_append)
      moreover have "\<forall>j<length (xs @ [x]). distance v a (snd (xs ! i)) \<le> distance v a (snd ((xs @ [x]) ! j))"
        using False mn x by (auto simp: nth_append less_Suc_eq)
      moreover have "\<forall>j<i. distance v a (snd (xs ! i)) < distance v a (snd ((xs @ [x]) ! j))"
        using st i by (auto simp: nth_append)
      ultimately show ?thesis using i
        by (intro exI[of _ i]) (simp add: nth_append)
    qed
  qed
qed

lemma find_emotion_in_catalog: "\<exists>e \<in> set (map fst emotions). find_emotion v a = Some e"
proof -
  have "emotions \<noteq> []" by (simp add: emotions_def)
  from find_emotion_loop_first_min[OF this, of v a] obtain i where
    "i < length emotions" "find_emotion v a = Some (fst (emotions ! i))"
    by (auto simp: find_emotion_def)
  then show ?thesis by (metis length_map nth_map nth_mem)
qed



text \<open>
  Claim C3. The names listed in the four colour clusters are exactly the keys of the catalog, no
  name is listed twice, every catalog name lies in exactly one cluster and resolves to one of the
  four colours, and \<^verbatim>\<open>get_colormap\<close> returns one of the four colours (never \<^verbatim>\<open>None\<close>) for every
  real input pair.
\<close>

theorem clusters_partition_catalog:
  "set (concat (map snd clustered_emotions)) = set (map fst emotions)
   \<and> distinct (concat (map snd clustered_emotions))
   \<and> map fst clustered_emotions = [''blue'', ''red'', ''green'', ''purple'']
   \<and> (\<forall>e \<in> set (map fst emotions).
        length (filter (\<lambda>(color, emotion_list). e \<in> set emotion_list) clustered_emotions) = 1
        \<and> color_of (Some e) clustered_emotions
            \<in> {Some ''blue'', Some ''red'', Some ''green'', Some ''purple''})
   \<and> get_colormap v a \<in> {Some ''blue'', Some ''red'', Some ''green'', Some ''purple''}"
proof -
  have 1: "set (concat (map snd clustered_emotions)) = set (map fst emotions)"
    by (auto simp add: emotions_def clustered_emotions_def)
  have 2: "distinct (concat (map snd clustered_emotions))"
    by (simp add: clustered_emotions_def)
  have 3: "map fst clustered_emotions = [''blue'', ''red'', ''green'', ''purple'']"
    by (simp add: clustered_emotions_def)
  have 4: "\<forall>e \<in> set (map fst emotions).
        length (filter (\<lambda>(color, emotion_list). e \<in> set emotion_list) clustered_emotions) = 1"
    by (simp add: emotions_def clustered_emotions_def)
  have 5: "\<forall>e \<in> set (map fst emotions). color_of (Some e) clustered_emotions
            \<in> {Some ''blue'', Some ''red'', Some ''green'', Some ''purple''}"
    by (simp add: emotions_def clustered_emotions_def)
  obtain e where e: "e \<in> set (map fst emotions)"
      "find_emotion (normalize_value v) (normalize_value a) = Some e"
    using find_emotion_in_catalog by blast
  have 6: "get_colormap v a \<in> {Some ''blue'', Some ''red'', Some ''green'', Some ''purple''}"
    unfolding get_colormap_def e(2) using 5 e(1) by blast
  from 1 2 3 4 5 6 show ?thesis by blast
qed

text \<open>\<^verbatim>\<open>Happy\<close> is a catalog name, lies in one cluster and resolves to blue.\<close>

theorem clusters_partition_catalog_witness:
  "''Happy'' \<in> set (map fst emotions)
   \<and> length (filter (\<lambda>(color, emotion_list). ''Happy'' \<in> set emotion_list) clustered_emotions) = 1
   \<and> color_of (Some ''Happy'') clustered_emotions = Some ''blue''
   \<and> get_colormap 8.56 5.68 = Some ''blue''"
proof -
  have h: "''Happy'' \<in> set (map fst emotions)" by (simp add: emotions_def)
  have c: "color_of (Some ''Happy'') clustered_emotions = Some ''blue''"
    by (simp add: clustered_emotions_def)
  have n: "normalize_value 8.56 = 0.89" "normalize_value 5.68 = 0.17"
    by (simp_all add: normalize_value_def)
  have f: "find_emotion 0.89 0.17 = Some ''Happy''"
    by (simp add: find_emotion_def emotions_def distance_def power2_eq_square)
  have g: "get_colormap 8.56 5.68 = Some ''blue''"
    unfolding get_colormap_def n f by (rule c)
  from clusters_partition_catalog[of 0 0] h
  have "length (filter (\<lambda>(color, emotion_list). ''Happy'' \<in> set emotion_list) clustered_emotions) = 1"
    by blast
  with h c g show ?thesis by blast
qed

text \<open>The catalog dict does not have 33 keys.\<close>

theorem emotions_count_counterexample:
  "card (dom (map_of emotions)) \<noteq> 33"
proof -
  have "distinct (map fst emotions)" by (simp add: emotions_def)
  then have "card (dom (map_of emotions)) = length emotions"
    by (simp add: dom_map_of_conv_image_fst distinct_card flip: set_map)
  then show ?thesis by (simp add: emotions_def)
qed

text \<open>
  Claim C4, amended. The catalog is a fixed mapping with exactly 34 emotion names, written without
  duplicate keys, and each name is bound to exactly one \<^typ>\<open>scores\<close> value (one real per axis).
\<close>

theorem emotions_catalog_34:
  "length emotions = 34 \<and> distinct (map fst emotions) \<and> card (dom (map_of emotions)) = 34
   \<and> (\<forall>k \<in> dom (map_of emotions). \<exists>!sc. (k, sc) \<in> set emotions)"
proof -
  have d: "distinct (map fst emotions)" by (simp add: emotions_def)
  have l: "length emotions = 34" by (simp add: emotions_def)
  have "card (dom (map_of emotions)) = length emotions"
    using d by (simp add: dom_map_of_conv_image_fst distinct_card flip: set_map)
  moreover have "\<forall>k \<in> dom (map_of emotions). \<exists>!sc. (k, sc) \<in> set emotions"
    using d by (auto dest: map_of_SomeD simp: eq_key_imp_eq_value)
  ultimately show ?thesis using d l by simp
qed

text \<open>\<^verbatim>\<open>Happy\<close> is a key, bound to exactly one value.\<close>

theorem emotions_catalog_34_witness:
  "''Happy'' \<in> dom (map_of emotions)
   \<and> (\<exists>!sc. (''Happy'', sc) \<in> set emotions)
   \<and> map_of emotions ''Happy'' = Some \<lparr>valence = 0.89, arousal = 0.17\<rparr>"
proof -
  have m: "map_of emotions ''Happy'' = Some \<lparr>valence = 0.89, arousal = 0.17\<rparr>"
    by (simp add: emotions_def)
  then have h: "''Happy'' \<in> dom (map_of emotions)" by blast
  from emotions_catalog_34 h have "\<exists>!sc. (''Happy'', sc) \<in> set emotions" by blast
  with m h show ?thesis by blast
qed



section \<open>Properties of feature extraction\<close>

lemma pad_truncate_length: "length (pad_truncate sr wave) = sr * 45"
  by (simp add: pad_truncate_def)

lemma pad_truncate_short:
  "length wave < sr * 45 \<Longrightarrow> pad_truncate sr wave = wave @ replicate (sr * 45 - length wave) 0"
  by (simp add: pad_truncate_def)

lemma pad_truncate_long:
  "sr * 45 \<le> length wave \<Longrightarrow> pad_truncate sr wave = take (sr * 45) wave"
  by (simp add: pad_truncate_def)

lemma pad_truncate_prefix:
  "take (sr * 45) wave = take (sr * 45) wave' \<Longrightarrow> sr * 45 \<le> length wave \<Longrightarrow> sr * 45 \<le> length wave'
   \<Longrightarrow> pad_truncate sr wave = pad_truncate sr wave'"
  by (simp add: pad_truncate_def)

lemma Predictor_extract_features_unfold:
  "decode L path (Some 44100) = Inr wave0 \<Longrightarrow>
   Predictor_extract_features L path w =
     (let wave = pad_truncate 44100 wave0;
          w1 = record_call (Call_mfcc wave) (record_call (Call_load path (Some 44100)) w) in
      case mfcc L wave 44100 20 2048 441 (Some 1102) of
        Inl e \<Rightarrow> (Inl e, w1)
      | Inr mf \<Rightarrow>
        let w2 = record_call (Call_chroma_stft wave) w1 in
        (case chroma_stft L wave 44100 2048 441 of
           Inl e \<Rightarrow> (Inl e, w2)
         | Inr ch \<Rightarrow>
           let w3 = record_call (Call_spectral_contrast wave) w2 in
           (case spectral_contrast L wave 44100 2048 441 of
              Inl e \<Rightarrow> (Inl e, w3)
            | Inr co \<Rightarrow> (np_concatenate [mf, ch, co], w3))))"
  by (simp add: Predictor_extract_features_def and_then_def librosa_load_def lib_call_def Let_def
      split: sum.splits)

lemma Predictor_extract_features_decode_error:
  "decode L path (Some 44100) = Inl e \<Longrightarrow>
   Predictor_extract_features L path w = (Inl e, record_call (Call_load path (Some 44100)) w)"
  by (simp add: Predictor_extract_features_def and_then_def librosa_load_def lib_call_def Let_def)

text \<open>The method and the function of line 83 have the same body.\<close>

lemma Predictor_extract_features_l83:
  "Predictor_extract_features L audio_path = extract_features_l83 L audio_path 44100"
  by (simp add: Predictor_extract_features_def extract_features_l83_def)

lemma transform_inputs_simps:
  "transform_inputs [] = []"
  "transform_inputs (Call_mfcc y # cs) = y # transform_inputs cs"
  "transform_inputs (Call_chroma_stft y # cs) = y # transform_inputs cs"
  "transform_inputs (Call_spectral_contrast y # cs) = y # transform_inputs cs"
  "transform_inputs (Call_load p sr # cs) = transform_inputs cs"
  "transform_inputs (Call_other s # cs) = transform_inputs cs"
  "transform_inputs (Call_forward net x # cs) = transform_inputs cs"
  by (simp_all add: transform_inputs_def transform_input_def)

text \<open>
  Claim C2. Whatever waveform the file decodes to, the waveform handed to the spectral transforms
  has exactly 44100 * 45 = 1,984,500 samples: a shorter one is the decoded samples followed by
  zeros, a longer one is its first 1,984,500 samples. The result of the run is what the three
  transforms return on that waveform, concatenated; the run is the same as the run on a file that
  decodes to the padded or cut waveform itself; every transform call of the run is recorded with
  that waveform (the first of them is the cepstral transform); and two decoded waveforms that
  agree on the first 1,984,500 samples give the same result and the same calls: no sample at
  index 1,984,500 or beyond reaches a descriptor.
\<close>

theorem waveform_fixed_window:
  assumes "decode L path (Some 44100) = Inr wave0"
  shows "length (pad_truncate 44100 wave0) = 1984500
    \<and> (length wave0 < 1984500 \<longrightarrow>
         pad_truncate 44100 wave0 = wave0 @ replicate (1984500 - length wave0) 0)
    \<and> (1984500 \<le> length wave0 \<longrightarrow> pad_truncate 44100 wave0 = take 1984500 wave0)
    \<and> fst (Predictor_extract_features L path w) =
        (case mfcc L (pad_truncate 44100 wave0) 44100 20 2048 441 (Some 1102) of
           Inl e \<Rightarrow> Inl e
         | Inr mfcc_out \<Rightarrow>
          (case chroma_stft L (pad_truncate 44100 wave0) 44100 2048 441 of
             Inl e \<Rightarrow> Inl e
           | Inr chroma \<Rightarrow>
            (case spectral_contrast L (pad_truncate 44100 wave0) 44100 2048 441 of
               Inl e \<Rightarrow> Inl e
             | Inr contrast \<Rightarrow> np_concatenate [mfcc_out, chroma, contrast])))
    \<and> Predictor_extract_features (L\<lparr>decode := \<lambda>p sr. Inr (pad_truncate 44100 wave0)\<rparr>) path w
        = Predictor_extract_features L path w
    \<and> (\<exists>rest. calls (snd (Predictor_extract_features L path w))
           = calls w @ Call_load path (Some 44100) # Call_mfcc (pad_truncate 44100 wave0) # rest
         \<and> set (transform_inputs rest) \<subseteq> {pad_truncate 44100 wave0})
    \<and> (\<forall>wave1. 1984500 \<le> length wave0 \<and> 1984500 \<le> length wave1
           \<and> take 1984500 wave1 = take 1984500 wave0 \<longrightarrow>
         Predictor_extract_features (L\<lparr>decode := \<lambda>p sr. Inr wave1\<rparr>) path w
           = Predictor_extract_features L path w)"
proof -
  have len: "length (pad_truncate 44100 wave0) = 1984500"
    by (simp add: pad_truncate_length)
  have short: "length wave0 < 1984500 \<longrightarrow>
      pad_truncate 44100 wave0 = wave0 @ replicate (1984500 - length wave0) 0"
    using pad_truncate_short[of wave0 44100] by simp
  have long: "1984500 \<le> length wave0 \<longrightarrow> pad_truncate 44100 wave0 = take 1984500 wave0"
    using pad_truncate_long[of 44100 wave0] by simp
  have run: "fst (Predictor_extract_features L path w) =
        (case mfcc L (pad_truncate 44100 wave0) 44100 20 2048 441 (Some 1102) of
           Inl e \<Rightarrow> Inl e
         | Inr mfcc_out \<Rightarrow>
          (case chroma_stft L (pad_truncate 44100 wave0) 44100 2048 441 of
             Inl e \<Rightarrow> Inl e
           | Inr chroma \<Rightarrow>
            (case spectral_contrast L (pad_truncate 44100 wave0) 44100 2048 441 of
               Inl e \<Rightarrow> Inl e
             | Inr contrast \<Rightarrow> np_concatenate [mfcc_out, chroma, contrast])))"
    unfolding Predictor_extract_features_unfold[OF assms]
    by (simp add: Let_def split: sum.splits)
  have idem: "pad_truncate 44100 (pad_truncate 44100 wave0) = pad_truncate 44100 wave0"
    using len by (simp add: pad_truncate_def)
  have dp: "decode (L\<lparr>decode := \<lambda>p sr. Inr (pad_truncate 44100 wave0)\<rparr>) path (Some 44100)
      = Inr (pad_truncate 44100 wave0)" by simp
  have padded: "Predictor_extract_features (L\<lparr>decode := \<lambda>p sr. Inr (pad_truncate 44100 wave0)\<rparr>) path w
        = Predictor_extract_features L path w"
    unfolding Predictor_extract_features_unfold[OF assms]
      Predictor_extract_features_unfold[OF dp] idem
    by (simp add: Let_def split: sum.splits)
  have log: "\<exists>rest. calls (snd (Predictor_extract_features L path w))
           = calls w @ Call_load path (Some 44100) # Call_mfcc (pad_truncate 44100 wave0) # rest
         \<and> set (transform_inputs rest) \<subseteq> {pad_truncate 44100 wave0}"
    unfolding Predictor_extract_features_unfold[OF assms]
    by (auto simp: Let_def record_call_def transform_inputs_simps split: sum.splits)
  have indep: "Predictor_extract_features (L\<lparr>decode := \<lambda>p sr. Inr wave1\<rparr>) path w
           = Predictor_extract_features L path w"
    if "1984500 \<le> length wave0" "1984500 \<le> length wave1"
       "take 1984500 wave1 = take 1984500 wave0" for wave1
  proof -
    have d: "decode (L\<lparr>decode := \<lambda>p sr. Inr wave1\<rparr>) path (Some 44100) = Inr wave1" by simp
    have p: "pad_truncate 44100 wave1 = pad_truncate 44100 wave0"
      using pad_truncate_prefix[of 44100 wave1 wave0] that by simp
    show ?thesis
      unfolding Predictor_extract_features_unfold[OF assms]
        Predictor_extract_features_unfold[OF d] p
      by (simp add: Let_def split: sum.splits)
  qed
  from len short long run padded log indep show ?thesis by blast
qed

lemma zeros_shape: "shape2 r c (zeros r c)"
  by (simp add: shape2_def zeros_def)

lemma zeros_append: "zeros r c @ zeros r' c = zeros (r + r') c"
  by (simp add: zeros_def replicate_add)

lemma frames_zeros: "0 < r \<Longrightarrow> frames (zeros r c) = c"
  by (cases r) (simp_all add: frames_def zeros_def)

lemma stub_librosa_shapes: "librosa_shapes (stub_librosa clip)"
  by (auto simp: librosa_shapes_def stub_librosa_def zeros_shape split: if_splits)

lemma np_concatenate_zeros:
  "0 < a \<Longrightarrow> 0 < b \<Longrightarrow> 0 < c \<Longrightarrow>
   np_concatenate [zeros a n, zeros b n, zeros c n] = Inr (zeros (a + b + c) n)"
  by (simp add: np_concatenate_def frames_zeros zeros_append add.assoc)

lemma stub_extract:
  assumes l: "length clip \<le> 1984500"
  shows "Predictor_extract_features (stub_librosa (Some clip)) path w =
     (Inr (zeros 39 4501),
      w\<lparr>calls := calls w @
         [Call_load path (Some 44100), Call_mfcc (clip @ replicate (1984500 - length clip) 0),
          Call_chroma_stft (clip @ replicate (1984500 - length clip) 0),
          Call_spectral_contrast (clip @ replicate (1984500 - length clip) 0)]\<rparr>)"
proof -
  define wave where "wave = clip @ replicate (1984500 - length clip) (0::real)"
  have d: "decode (stub_librosa (Some clip)) path (Some 44100) = Inr clip"
    by (simp add: stub_librosa_def)
  have p: "pad_truncate 44100 clip = wave"
    using l by (simp add: pad_truncate_def wave_def)
  have n: "length wave = 1984500"
    using l by (simp add: wave_def)
  then have ne: "wave \<noteq> []" by auto
  have mf: "mfcc (stub_librosa (Some clip)) wave 44100 20 2048 441 (Some 1102) = Inr (zeros 20 4501)"
    using ne by (simp add: stub_librosa_def n)
  have ch: "chroma_stft (stub_librosa (Some clip)) wave 44100 2048 441 = Inr (zeros 12 4501)"
    using ne by (simp add: stub_librosa_def n)
  have co: "spectral_contrast (stub_librosa (Some clip)) wave 44100 2048 441 = Inr (zeros 7 4501)"
    using ne by (simp add: stub_librosa_def n)
  have c: "np_concatenate [zeros 20 4501, zeros 12 4501, zeros 7 4501] = Inr (zeros 39 4501)"
    using np_concatenate_zeros[of 20 12 7 4501] by simp
  show ?thesis
    unfolding Predictor_extract_features_unfold[OF d] p wave_def[symmetric]
    by (simp add: Let_def mf ch co c record_call_def)
qed

text \<open>
  A clip of two samples is padded with 1,984,498 zeros; clips of 1,984,501 samples that differ
  in the last sample only are cut to the same window and give the same run; and a cepstral
  transform that accepts nothing but 1,984,500 samples accepts the run of the two-sample clip.
\<close>

theorem waveform_fixed_window_witness:
  "decode (stub_librosa (Some [0.5, - 0.25])) ''song.mp3'' (Some 44100) = Inr [0.5, - 0.25]
   \<and> pad_truncate 44100 [0.5, - 0.25] = [0.5, - 0.25] @ replicate 1984498 0
   \<and> pad_truncate 44100 (replicate 1984500 0.5 @ [9]) = replicate 1984500 0.5
   \<and> Predictor_extract_features (stub_librosa (Some (replicate 1984500 0.5 @ [7]))) ''song.mp3'' world0
     = Predictor_extract_features (stub_librosa (Some (replicate 1984500 0.5 @ [9]))) ''song.mp3'' world0
   \<and> fst (Predictor_extract_features
        ((stub_librosa (Some [0.5, - 0.25]))\<lparr>mfcc := \<lambda>y sr n f h wl.
            if length y = 1984500 then Inr (zeros n 4501) else Inl FeatureError\<rparr>)
        ''song.mp3'' world0) = Inr (zeros 39 4501)"
proof -
  let ?C = "(stub_librosa (Some [0.5, - 0.25]))\<lparr>mfcc := \<lambda>y sr n f h wl.
            if length y = 1984500 then Inr (zeros n 4501) else Inl FeatureError\<rparr>"
  have dc: "decode ?C ''song.mp3'' (Some 44100) = Inr [0.5, - 0.25]"
    by (simp add: stub_librosa_def)
  have nc: "pad_truncate 44100 [0.5, - 0.25] \<noteq> []" by (simp add: pad_truncate_def)
  have tc: "mfcc ?C (pad_truncate 44100 [0.5, - 0.25]) 44100 20 2048 441 (Some 1102) = Inr (zeros 20 4501)"
    "chroma_stft ?C (pad_truncate 44100 [0.5, - 0.25]) 44100 2048 441 = Inr (zeros 12 4501)"
    "spectral_contrast ?C (pad_truncate 44100 [0.5, - 0.25]) 44100 2048 441 = Inr (zeros 7 4501)"
    using nc by (simp_all add: stub_librosa_def pad_truncate_length)
  have cc: "np_concatenate [zeros 20 4501, zeros 12 4501, zeros 7 4501] = Inr (zeros 39 4501)"
    using np_concatenate_zeros[of 20 12 7 4501] by simp
  have "fst (Predictor_extract_features ?C ''song.mp3'' world0) =
        (case mfcc ?C (pad_truncate 44100 [0.5, - 0.25]) 44100 20 2048 441 (Some 1102) of
           Inl e \<Rightarrow> Inl e
         | Inr mfcc_out \<Rightarrow>
          (case chroma_stft ?C (pad_truncate 44100 [0.5, - 0.25]) 44100 2048 441 of
             Inl e \<Rightarrow> Inl e
           | Inr chroma \<Rightarrow>
            (case spectral_contrast ?C (pad_truncate 44100 [0.5, - 0.25]) 44100 2048 441 of
               Inl e \<Rightarrow> Inl e
             | Inr contrast \<Rightarrow> np_concatenate [mfcc_out, chroma, contrast])))"
    using waveform_fixed_window[OF dc, of world0] by blast
  then have e: "fst (Predictor_extract_features ?C ''song.mp3'' world0) = Inr (zeros 39 4501)"
    unfolding tc sum.case cc .
  have d1: "decode (stub_librosa (Some [0.5, - 0.25])) ''song.mp3'' (Some 44100) = Inr [0.5, - 0.25]"
    by (simp add: stub_librosa_def)
  have d2: "decode (stub_librosa (Some (replicate 1984500 0.5 @ [9]))) ''song.mp3'' (Some 44100)
      = Inr (replicate 1984500 0.5 @ [9])"
    by (simp add: stub_librosa_def)
  have u: "(stub_librosa (Some (replicate 1984500 0.5 @ [9])))\<lparr>decode := \<lambda>p sr. Inr (replicate 1984500 0.5 @ [7])\<rparr>
      = stub_librosa (Some (replicate 1984500 0.5 @ [7]))"
    by (simp add: stub_librosa_def)
  have a: "pad_truncate 44100 [0.5, - 0.25] = [0.5, - 0.25] @ replicate 1984498 0"
    using waveform_fixed_window[OF d1, of world0] by simp
  have b: "pad_truncate 44100 (replicate 1984500 0.5 @ [9]) = replicate 1984500 0.5"
    using waveform_fixed_window[OF d2, of world0] by simp
  have c: "Predictor_extract_features (stub_librosa (Some (replicate 1984500 0.5 @ [7]))) ''song.mp3'' world0
     = Predictor_extract_features (stub_librosa (Some (replicate 1984500 0.5 @ [9]))) ''song.mp3'' world0"
    using waveform_fixed_window[OF d2, of world0] unfolding u[symmetric] by simp
  from d1 a b c e show ?thesis by blast
qed

lemma Predictor_extract_features_parts:
  assumes "librosa_shapes L"
    and "fst (Predictor_extract_features L path w) = Inr features"
  shows "\<exists>mf ch co. features = mf @ ch @ co
    \<and> shape2 20 4501 mf \<and> shape2 12 4501 ch \<and> shape2 7 4501 co"
proof (cases "decode L path (Some 44100)")
  case (Inl e)
  then show ?thesis
    using assms(2) by (simp add: Predictor_extract_features_decode_error)
next
  case (Inr wave0)
  let ?wave = "pad_truncate 44100 wave0"
  have n: "1 + length ?wave div 441 = 4501" by (simp add: pad_truncate_length)
  from assms(2) obtain mf ch co where
    mf: "mfcc L ?wave 44100 20 2048 441 (Some 1102) = Inr mf" and
    ch: "chroma_stft L ?wave 44100 2048 441 = Inr ch" and
    co: "spectral_contrast L ?wave 44100 2048 441 = Inr co" and
    cat: "np_concatenate [mf, ch, co] = Inr features"
    unfolding Predictor_extract_features_unfold[OF Inr]
    by (auto simp: Let_def split: sum.splits)
  from assms(1) mf ch co have "shape2 20 4501 mf" "shape2 12 4501 ch" "shape2 7 4501 co"
    unfolding librosa_shapes_def using n by metis+
  moreover from cat have "features = mf @ ch @ co"
    by (simp add: np_concatenate_def split: if_splits)
  ultimately show ?thesis by blast
qed

text \<open>
  Claim C5. With the output shapes librosa documents, every descriptor that feature extraction
  returns has exactly 39 channels, each of 4501 frames, whatever the decoded waveform is: it is
  the 20 cepstral rows, then the 12 chroma rows, then the 7 contrast rows.
\<close>

theorem descriptor_has_39_channels:
  assumes "librosa_shapes L"
    and "fst (Predictor_extract_features L path w) = Inr features"
  shows "length features = 39 \<and> (\<forall>row \<in> set features. length row = 4501)
    \<and> (\<exists>mfcc_out chroma contrast. features = mfcc_out @ chroma @ contrast
          \<and> length mfcc_out = 20 \<and> length chroma = 12 \<and> length contrast = 7)"
proof -
  from Predictor_extract_features_parts[OF assms] obtain mf ch co where
    f: "features = mf @ ch @ co" and
    s: "shape2 20 4501 mf" "shape2 12 4501 ch" "shape2 7 4501 co"
    by blast
  from s have l: "length mf = 20" "length ch = 12" "length co = 7"
    by (simp_all add: shape2_def)
  from s have r: "\<forall>row \<in> set (mf @ ch @ co). length row = 4501"
    by (auto simp: shape2_def)
  have "length features = 39" using f l by simp
  moreover have "\<forall>row \<in> set features. length row = 4501" using f r by simp
  ultimately show ?thesis using f l by blast
qed

text \<open>The stand-in library meets the shapes, and a two-sample clip gives a 39 by 4501 descriptor.\<close>

theorem descriptor_has_39_channels_witness:
  "librosa_shapes (stub_librosa (Some [0.5, - 0.25]))
   \<and> fst (Predictor_extract_features (stub_librosa (Some [0.5, - 0.25])) ''song.mp3'' world0)
       = Inr (zeros 39 4501)
   \<and> length (zeros 39 4501) = 39 \<and> list_all (\<lambda>row. length row = 4501) (zeros 39 4501)"
proof -
  have e: "fst (Predictor_extract_features (stub_librosa (Some [0.5, - 0.25])) ''song.mp3'' world0)
       = Inr (zeros 39 4501)"
    by (simp add: stub_extract)
  from descriptor_has_39_channels[OF stub_librosa_shapes e] stub_librosa_shapes e
  show ?thesis unfolding list_all_iff by blast
qed

section \<open>Properties of the networks\<close>

lemma BatchNorm1d_eval_unchanged: "snd (BatchNorm1d_forward False bn x) = bn"
  by (simp add: BatchNorm1d_forward_def)

lemma conv_block_eval_unchanged: "snd (conv_block False conv bn x) = bn"
proof -
  obtain r bn' where b: "BatchNorm1d_forward False bn (projr (Conv1d_forward conv x)) = (r, bn')"
    by (cases "BatchNorm1d_forward False bn (projr (Conv1d_forward conv x))")
  with BatchNorm1d_eval_unchanged[of bn "projr (Conv1d_forward conv x)"] have "bn' = bn" by simp
  with b show ?thesis
    by (cases "Conv1d_forward conv x"; cases r) (simp_all add: conv_block_def)
qed

lemma conv_block_eval: "conv_block False conv bn x = (fst (conv_block False conv bn x), bn)"
  using conv_block_eval_unchanged[of conv bn x] by (cases "conv_block False conv bn x") simp

lemma AudioNet_forward_eval:
  assumes "\<not> training net"
  shows "AudioNet_forward net x g = (fst (AudioNet_forward net x g'), net, g)"
proof -
  have t: "training net = False" using assms by simp
  obtain r1 where c1: "conv_block False (conv1_0 net) (conv1_1 net) x = (r1, conv1_1 net)"
    using conv_block_eval by blast
  show ?thesis
  proof (cases r1)
    case (Inl e)
    then show ?thesis using c1 by (simp add: AudioNet_forward_def t)
  next
    case (Inr x1)
    obtain r2 where c2: "conv_block False (conv2_0 net) (conv2_1 net) x1 = (r2, conv2_1 net)"
      using conv_block_eval by blast
    show ?thesis
    proof (cases r2)
      case (Inl e)
      then show ?thesis using c1 c2 Inr by (simp add: AudioNet_forward_def t)
    next
      case x2: (Inr x2)
      show ?thesis using c1 c2 Inr x2
        by (simp add: AudioNet_forward_def t Dropout_forward_def Let_def split: sum.splits)
    qed
  qed
qed

lemma AudioNet_call_eval:
  assumes "\<not> training net"
  shows "AudioNet_call net x w =
    (fst (AudioNet_forward net x g'), net, record_call (Call_forward net x) w)"
proof -
  have "AudioNet_forward net x (rng w) = (fst (AudioNet_forward net x g'), net, rng w)"
    using AudioNet_forward_eval[OF assms] .
  then show ?thesis by (simp add: AudioNet_call_def record_call_def)
qed

lemma AudioNet_forward_channel_mismatch:
  assumes "length x \<noteq> in_channels (conv1_0 net)"
  shows "AudioNet_forward net x g = (Inl ShapeError, net, g)"
  using assms by (simp add: AudioNet_forward_def conv_block_def Conv1d_forward_def)

lemma load_state_dict_keeps:
  assumes "load_state_dict net sd = Inr net'"
  shows "training net' = training net" "in_channels (conv1_0 net') = in_channels (conv1_0 net)"
    "in_ch net' = in_ch net"
  using assms by (auto simp: load_state_dict_def split: if_splits)

lemma load_model_Inr:
  assumes "fst (load_model T model_path params w) = Inr net"
  shows "\<not> training net" "in_channels (conv1_0 net) = params_get params ''in_ch'' 1"
proof -
  obtain init g' where i: "random_init T params (rng w) = (init, g')"
    by (cases "random_init T params (rng w)")
  from assms i obtain sd net' where
    "load_state_dict (AudioNet_init params init) sd = Inr net'" "net = AudioNet_eval net'"
    by (auto simp: load_model_def Let_def split: sum.splits)
  with load_state_dict_keeps[OF this(1)]
  show "\<not> training net" "in_channels (conv1_0 net) = params_get params ''in_ch'' 1"
    by (simp_all add: AudioNet_eval_def AudioNet_init_def Let_def)
qed

text \<open>
  What the constructor draws from the generator is replaced by the loaded state dict: the network
  that \<^verbatim>\<open>load_model\<close> returns does not depend on the generator.
\<close>

lemma load_state_dict_init_independent:
  "load_state_dict (AudioNet_init params init) sd = load_state_dict (AudioNet_init params init') sd"
  by (simp add: load_state_dict_def AudioNet_init_def Let_def Conv1d_fits_def BatchNorm1d_fits_def
      Linear_fits_def)

lemma load_model_generator_independent:
  "fst (load_model T model_path params w) = fst (load_model T model_path params w')"
proof -
  obtain init g where i: "random_init T params (rng w) = (init, g)"
    by (cases "random_init T params (rng w)")
  obtain init' g' where i': "random_init T params (rng w') = (init', g')"
    by (cases "random_init T params (rng w')")
  show ?thesis
    using load_state_dict_init_independent[of params init _ init']
    by (simp add: load_model_def i i' Let_def split: sum.splits)
qed

lemma Predictor_init_generator_independent:
  "fst (Predictor_init T path_valence path_arousal w)
     = fst (Predictor_init T path_valence path_arousal w')"
proof -
  obtain r1 w1 where l1: "load_model T path_valence valence_params w = (r1, w1)"
    by (cases "load_model T path_valence valence_params w")
  obtain r1' w1' where l1': "load_model T path_valence valence_params w' = (r1', w1')"
    by (cases "load_model T path_valence valence_params w'")
  have e1: "r1' = r1"
    using load_model_generator_independent[of T path_valence valence_params w' w] l1 l1' by simp
  obtain r2 w2 where l2: "load_model T path_arousal arousal_params w1 = (r2, w2)"
    by (cases "load_model T path_arousal arousal_params w1")
  obtain r2' w2' where l2': "load_model T path_arousal arousal_params w1' = (r2', w2')"
    by (cases "load_model T path_arousal arousal_params w1'")
  have e2: "r2' = r2"
    using load_model_generator_independent[of T path_arousal arousal_params w1' w1] l2 l2' by simp
  show ?thesis
    by (simp add: Predictor_init_def and_then_def l1 l1' l2 l2' e1 e2 split: sum.splits)
qed

lemma Predictor_init_Inr:
  assumes "fst (Predictor_init T pv pa w) = Inr P"
  shows "\<not> training (valence_model P)" "\<not> training (arousal_model P)"
    "in_channels (conv1_0 (valence_model P)) = 39" "in_channels (conv1_0 (arousal_model P)) = 39"
proof -
  obtain r1 w1 where l1: "load_model T pv valence_params w = (r1, w1)"
    by (cases "load_model T pv valence_params w")
  obtain r2 w2 where l2: "load_model T pa arousal_params w1 = (r2, w2)"
    by (cases "load_model T pa arousal_params w1")
  from assms l1 l2 obtain vm am where r: "r1 = Inr vm" "r2 = Inr am"
    and P: "valence_model P = vm" "arousal_model P = am"
    by (cases r1; cases r2) (auto simp: Predictor_init_def and_then_def)
  have v: "fst (load_model T pv valence_params w) = Inr vm" using l1 r by simp
  have a: "fst (load_model T pa arousal_params w1) = Inr am" using l2 r by simp
  show "\<not> training (valence_model P)" "\<not> training (arousal_model P)"
    using load_model_Inr(1)[OF v] load_model_Inr(1)[OF a] P by simp_all
  show "in_channels (conv1_0 (valence_model P)) = 39" "in_channels (conv1_0 (arousal_model P)) = 39"
    using load_model_Inr(2)[OF v] load_model_Inr(2)[OF a] P
    by (simp_all add: valence_params_def arousal_params_def params_get_def)
qed

subsection \<open>The constant network of the stand-in\<close>

lemma dot_zeros_left: "dot (replicate n 0) row = 0"
proof (induction row arbitrary: n)
  case Nil
  then show ?case by (simp add: dot_def)
next
  case (Cons a row)
  then show ?case by (cases n) (simp_all add: dot_def)
qed

lemma map2_replicate: "map2 f (replicate n a) (replicate n b) = replicate n (f a b)"
  by simp

lemma Conv1d_forward_zeros:
  assumes "in_channels c = i" "kernel_size c = k" "k \<le> n" "0 < i"
    "conv_weight c = replicate f (zeros i k)" "conv_bias c = replicate f 0"
  shows "Conv1d_forward c (zeros i n) = Inr (zeros f (n - k + 1))"
proof -
  have fr: "frames (zeros i n) = n" using assms(4) by (simp add: frames_zeros)
  have inner: "sum_list (map2 (\<lambda>w_in row. dot w_in (take k (drop t row))) (zeros i k) (zeros i n)) = 0"
    for t
    by (simp add: zeros_def dot_zeros_left sum_list_replicate)
  have "Conv1d_forward c (zeros i n) =
      Inr (map2 (\<lambda>w_out b. map (\<lambda>t. b + sum_list (map2 (\<lambda>w_in row. dot w_in (take k (drop t row))) w_out (zeros i n)))
           [0 ..< n - k + 1]) (replicate f (zeros i k)) (replicate f 0))"
    using assms fr by (simp add: Conv1d_forward_def zeros_def)
  also have "\<dots> = Inr (zeros f (n - k + 1))"
    unfolding map2_replicate inner by (simp add: zeros_def map_replicate_const)
  finally show ?thesis .
qed

lemma normalize_rows_zeros:
  "normalize_rows (replicate f 0) (replicate f 1) (replicate f 1) (replicate f 0) (zeros f n) = zeros f n"
  by (simp add: normalize_rows_def zeros_def)

lemma BatchNorm1d_forward_zeros:
  assumes "num_features bn = f" "bn_weight bn = replicate f 1" "bn_bias bn = replicate f 0"
    "running_mean bn = replicate f 0" "running_var bn = replicate f 1"
  shows "BatchNorm1d_forward False bn (zeros f n) = (Inr (zeros f n), bn)"
  using assms by (simp add: BatchNorm1d_forward_def normalize_rows_zeros) (simp add: zeros_def)

lemma relu_zeros: "relu (zeros f n) = zeros f n"
  by (simp add: relu_def zeros_def)

lemma AvgPool1d_forward_zeros:
  assumes "k \<le> n" "0 < f"
  shows "AvgPool1d_forward k (zeros f n) = Inr (zeros f ((n - k) div k + 1))"
  using assms by (simp add: AvgPool1d_forward_def frames_zeros)
    (simp add: zeros_def sum_list_replicate map_replicate_const replicate_append_same)

lemma conv_block_zeros:
  assumes "in_channels c = i" "kernel_size c = k" "k \<le> n" "0 < i" "0 < f" "2 \<le> n - k + 1"
    "conv_weight c = replicate f (zeros i k)" "conv_bias c = replicate f 0"
    "num_features bn = f" "bn_weight bn = replicate f 1" "bn_bias bn = replicate f 0"
    "running_mean bn = replicate f 0" "running_var bn = replicate f 1"
  shows "conv_block False c bn (zeros i n) = (Inr (zeros f ((n - k + 1 - 2) div 2 + 1)), bn)"
  using assms
  by (simp add: conv_block_def Conv1d_forward_zeros[where i=i and k=k and f=f]
      BatchNorm1d_forward_zeros[where f=f] relu_zeros AvgPool1d_forward_zeros)

lemma concat_zeros: "concat (zeros f n) = replicate (f * n) 0"
  by (induction f) (simp_all add: zeros_def replicate_add)

lemma view_zeros:
  assumes "0 < f * n"
  shows "view (f * n) (zeros f n) = Inr [replicate (f * n) 0]"
  using assms by (simp add: view_def concat_zeros Let_def)

lemma map2_zeros_bias:
  "length bs = h \<Longrightarrow> map2 (\<lambda>w b. dot w row + b) (zeros h n) bs = bs"
proof (induction bs arbitrary: h)
  case Nil
  then show ?case by simp
next
  case (Cons b bs)
  then obtain h' where "h = Suc h'" "length bs = h'" by (cases h) auto
  with Cons.IH[of h'] show ?case by (simp add: zeros_def dot_zeros_left)
qed

lemma Linear_forward_zeros:
  assumes "in_features l = length row" "lin_weight l = zeros h (length row)" "length (lin_bias l) = h"
  shows "Linear_forward l [row] = Inr [lin_bias l]"
  using assms by (simp add: Linear_forward_def map2_zeros_bias)

lemma softmax_single: "softmax [[s]] = [[1]]"
  by (simp add: softmax_def)

lemma mul_rows_one: "mul_rows row [1] = row"
proof (cases row)
  case Nil
  then show ?thesis by (simp add: mul_rows_def)
next
  case (Cons a rest)
  then show ?thesis by (cases rest) (simp_all add: mul_rows_def)
qed

lemma broadcast_mul_one: "broadcast_mul [row] [[1]] = Inr [row]"
  by (simp add: broadcast_mul_def frames_def mul_rows_one)

lemma load_state_dict_init:
  assumes "load_state_dict (AudioNet_init params init) sd = Inr net"
  shows "net = AudioNet_init params sd"
  using assms by (auto simp: load_state_dict_def AudioNet_init_def Let_def split: if_splits)

lemma shape3_zeros: "shape3 a r c (replicate a (zeros r c))"
  by (simp add: shape3_def zeros_shape)

lemma get_to_linear_eq: "get_to_linear f2 = f2 * 111"
  by (simp add: get_to_linear_def pool_len_def conv_len_def)

lemma load_state_dict_constant:
  assumes "params = [(''in_ch'', i), (''num_filters1'', f1), (''num_filters2'', f2),
      (''num_hidden'', h), (''out_size'', 1)]"
  shows "load_state_dict (AudioNet_init params init) (constant_state_dict i f1 f2 h b)
    = Inr (AudioNet_init params (constant_state_dict i f1 f2 h b))"
proof -
  have g: "params_get params ''in_ch'' 1 = i" "params_get params ''num_filters1'' 32 = f1"
    "params_get params ''num_filters2'' 64 = f2" "params_get params ''num_hidden'' 128 = h"
    "params_get params ''out_size'' 1 = 1"
    "params_get params ''in_ch'' (Suc 0) = i" "params_get params ''out_size'' (Suc 0) = Suc 0"
    by (simp_all add: assms params_get_def)
  have "\<exists>net. load_state_dict (AudioNet_init params init) (constant_state_dict i f1 f2 h b) = Inr net"
    by (simp add: load_state_dict_def AudioNet_init_def Let_def g constant_state_dict_def
        Conv1d_fits_def BatchNorm1d_fits_def Linear_fits_def shape3_zeros zeros_shape)
  then show ?thesis using load_state_dict_init by blast
qed

lemma constant_net_forward:
  assumes p: "params = [(''in_ch'', i), (''num_filters1'', f1), (''num_filters2'', f2),
      (''num_hidden'', h), (''out_size'', 1)]"
    and pos: "0 < i" "0 < f1" "0 < f2"
    and net: "net = AudioNet_eval (AudioNet_init params (constant_state_dict i f1 f2 h b))"
  shows "AudioNet_forward net (zeros i 4501) g = (Inr [[b]], net, g)"
proof -
  have g: "params_get params ''in_ch'' 1 = i" "params_get params ''num_filters1'' 32 = f1"
    "params_get params ''num_filters2'' 64 = f2" "params_get params ''num_hidden'' 128 = h"
    "params_get params ''out_size'' 1 = 1"
    "params_get params ''in_ch'' (Suc 0) = i" "params_get params ''out_size'' (Suc 0) = Suc 0"
    by (simp_all add: p params_get_def)
  have t: "training net = False" by (simp add: net AudioNet_eval_def)
  have c1: "conv_block False (conv1_0 net) (conv1_1 net) (zeros i 4501)
      = (Inr (zeros f1 2246), conv1_1 net)"
    using conv_block_zeros[of "conv1_0 net" i 10 4501 f1 "conv1_1 net"] pos
    by (simp add: net AudioNet_eval_def AudioNet_init_def Let_def g constant_state_dict_def)
  have c2: "conv_block False (conv2_0 net) (conv2_1 net) (zeros f1 2246)
      = (Inr (zeros f2 1118), conv2_1 net)"
    using conv_block_zeros[of "conv2_0 net" f1 10 2246 f2 "conv2_1 net"] pos
    by (simp add: net AudioNet_eval_def AudioNet_init_def Let_def g constant_state_dict_def)
  have pl: "AvgPool1d_forward 10 (zeros f2 1118) = Inr (zeros f2 111)"
    using AvgPool1d_forward_zeros[of 10 1118 f2] pos by simp
  have tl: "to_linear net = f2 * 111"
    by (simp add: net AudioNet_eval_def AudioNet_init_def Let_def g get_to_linear_eq)
  have vw: "view (to_linear net) (zeros f2 111) = Inr [replicate (f2 * 111) 0]"
    unfolding tl using view_zeros[of f2 111] pos by simp
  have a0: "Linear_forward (attention_0 (attention net)) [replicate (f2 * 111) 0] = Inr [replicate 64 0]"
    using Linear_forward_zeros[of "attention_0 (attention net)" "replicate (f2 * 111) 0" 64]
    by (simp add: net AudioNet_eval_def AudioNet_init_def Let_def g constant_state_dict_def get_to_linear_eq)
  have r0: "relu [replicate 64 0] = [replicate 64 0]"
    using relu_zeros[of 1 64] by (simp add: zeros_def)
  have a2: "Linear_forward (attention_2 (attention net)) [replicate 64 0] = Inr [[0]]"
    using Linear_forward_zeros[of "attention_2 (attention net)" "replicate 64 0" 1]
    by (simp add: net AudioNet_eval_def AudioNet_init_def Let_def g constant_state_dict_def)
  have fd: "feature_dim (attention net) = f2 * 111"
    by (simp add: net AudioNet_eval_def AudioNet_init_def Let_def g get_to_linear_eq)
  have v2: "view (f2 * 111) [replicate (f2 * 111) 0] = Inr [replicate (f2 * 111) 0]"
    using pos by (simp add: view_def)
  have at: "Attention_forward (attention net) [replicate (f2 * 111) 0] = Inr [replicate (f2 * 111) 0]"
    by (simp add: Attention_forward_def a0 r0 a2 softmax_single broadcast_mul_one fd v2)
  have f1': "Linear_forward (fc1 net) [replicate (f2 * 111) 0] = Inr [replicate h 0]"
    using Linear_forward_zeros[of "fc1 net" "replicate (f2 * 111) 0" h]
    by (simp add: net AudioNet_eval_def AudioNet_init_def Let_def g constant_state_dict_def get_to_linear_eq)
  have rh: "relu [replicate h 0] = [replicate h 0]"
    using relu_zeros[of 1 h] by (simp add: zeros_def)
  have f2': "Linear_forward (fc2 net) [replicate h 0] = Inr [[b]]"
    using Linear_forward_zeros[of "fc2 net" "replicate h 0" 1]
    by (simp add: net AudioNet_eval_def AudioNet_init_def Let_def g constant_state_dict_def)
  show ?thesis
    by (simp add: AudioNet_forward_def t c1 c2 pl vw at f1' Dropout_forward_def rh f2')
qed

lemma stub_load_valence:
  "fst (load_model stub_torch ''valence.pth'' valence_params w)
     = Inr (AudioNet_eval (AudioNet_init valence_params (constant_state_dict 39 32 64 64 3)))"
proof -
  obtain init g' where i: "random_init stub_torch valence_params (rng w) = (init, g')"
    by (cases "random_init stub_torch valence_params (rng w)")
  have l: "torch_load stub_torch ''valence.pth'' = Inr (constant_state_dict 39 32 64 64 3)"
    by (simp add: stub_torch_def)
  show ?thesis
    using load_state_dict_constant[OF valence_params_def, of init 3]
    by (simp add: load_model_def i l Let_def)
qed

lemma stub_load_arousal:
  "fst (load_model stub_torch ''arousal.pth'' arousal_params w)
     = Inr (AudioNet_eval (AudioNet_init arousal_params (constant_state_dict 39 32 32 128 5)))"
proof -
  obtain init g' where i: "random_init stub_torch arousal_params (rng w) = (init, g')"
    by (cases "random_init stub_torch arousal_params (rng w)")
  have l: "torch_load stub_torch ''arousal.pth'' = Inr (constant_state_dict 39 32 32 128 5)"
    by (simp add: stub_torch_def)
  show ?thesis
    using load_state_dict_constant[OF arousal_params_def, of init 5]
    by (simp add: load_model_def i l Let_def)
qed

lemma stub_Predictor_init:
  "fst (Predictor_init stub_torch ''valence.pth'' ''arousal.pth'' w) = Inr stub_predictor"
proof -
  obtain r1 w1 where l1: "load_model stub_torch ''valence.pth'' valence_params w = (r1, w1)"
    by (cases "load_model stub_torch ''valence.pth'' valence_params w")
  obtain r2 w2 where l2: "load_model stub_torch ''arousal.pth'' arousal_params w1 = (r2, w2)"
    by (cases "load_model stub_torch ''arousal.pth'' arousal_params w1")
  from l1 stub_load_valence[of w] have r1: "r1 = Inr (valence_model stub_predictor)"
    by (simp add: stub_predictor_def)
  from l2 stub_load_arousal[of w1] have r2: "r2 = Inr (arousal_model stub_predictor)"
    by (simp add: stub_predictor_def)
  show ?thesis
    by (simp add: Predictor_init_def and_then_def l1 l2 r1 r2 stub_predictor_def)
qed

section \<open>Properties of \<^verbatim>\<open>Predictor.predict\<close>\<close>

lemma is_load_simps:
  "is_load (Call_load p sr)" "\<not> is_load (Call_mfcc y)" "\<not> is_load (Call_chroma_stft y)"
  "\<not> is_load (Call_spectral_contrast y)" "\<not> is_load (Call_other s)" "\<not> is_load (Call_forward net x)"
  by (simp_all add: is_load_def)

lemma forward_inputs_simps:
  "forward_inputs [] = []"
  "forward_inputs (Call_forward net x # cs) = x # forward_inputs cs"
  "forward_inputs (Call_load p sr # cs) = forward_inputs cs"
  "forward_inputs (Call_mfcc y # cs) = forward_inputs cs"
  "forward_inputs (Call_chroma_stft y # cs) = forward_inputs cs"
  "forward_inputs (Call_spectral_contrast y # cs) = forward_inputs cs"
  "forward_inputs (Call_other s # cs) = forward_inputs cs"
  by (simp_all add: forward_inputs_def)

lemma forward_inputs_append: "forward_inputs (xs @ ys) = forward_inputs xs @ forward_inputs ys"
  by (simp add: forward_inputs_def List.map_filter_def)

lemma extract_world_independent:
  "fst (Predictor_extract_features L path w) = fst (Predictor_extract_features L path w')"
proof (cases "decode L path (Some 44100)")
  case (Inl e)
  then show ?thesis by (simp add: Predictor_extract_features_decode_error)
next
  case (Inr wave0)
  show ?thesis
    unfolding Predictor_extract_features_unfold[OF Inr]
    by (simp add: Let_def split: sum.splits)
qed

lemma extract_calls:
  "\<exists>new. calls (snd (Predictor_extract_features L path w)) = calls w @ new
     \<and> length (filter is_load new) = 1 \<and> forward_inputs new = []
     \<and> (\<forall>features. fst (Predictor_extract_features L path w) = Inr features \<longrightarrow>
          (\<exists>wave. new = [Call_load path (Some 44100), Call_mfcc wave, Call_chroma_stft wave,
                          Call_spectral_contrast wave]))"
proof (cases "decode L path (Some 44100)")
  case (Inl e)
  then show ?thesis
    by (simp add: Predictor_extract_features_decode_error record_call_def is_load_simps
        forward_inputs_simps)
next
  case (Inr wave0)
  show ?thesis
    unfolding Predictor_extract_features_unfold[OF Inr]
    by (auto simp: Let_def record_call_def is_load_simps forward_inputs_simps split: sum.splits)
qed

lemma AudioNet_call_calls:
  "calls (snd (snd (AudioNet_call net x w))) = calls w @ [Call_forward net x]"
  by (simp add: AudioNet_call_def record_call_def split: prod.splits)

lemma predict_unfold:
  assumes "Predictor_extract_features L path w = (Inr features, w1)"
    and "AudioNet_call (valence_model self) features w1 = (rv, vm, w2)"
    and "AudioNet_call (arousal_model self) features w2 = (ra, am, w3)"
  shows "Predictor_predict L self path w =
    (case rv of
       Inl e \<Rightarrow> (Inl e, self\<lparr>valence_model := vm\<rparr>, w2)
     | Inr vp \<Rightarrow>
      (case ra of
         Inl e \<Rightarrow> (Inl e, self\<lparr>valence_model := vm, arousal_model := am\<rparr>, w3)
       | Inr ap \<Rightarrow>
        (case item vp of
           Inl e \<Rightarrow> (Inl e, self\<lparr>valence_model := vm, arousal_model := am\<rparr>, w3)
         | Inr v \<Rightarrow>
          (case item ap of
             Inl e \<Rightarrow> (Inl e, self\<lparr>valence_model := vm, arousal_model := am\<rparr>, w3)
           | Inr a \<Rightarrow> (Inr (v, a), self\<lparr>valence_model := vm, arousal_model := am\<rparr>, w3)))))"
  using assms by (simp add: Predictor_predict_def Let_def split: sum.splits)

lemma predict_extract_error:
  assumes "fst (Predictor_extract_features L path w) = Inl e"
  shows "Predictor_predict L self path w = (Inl e, self, snd (Predictor_extract_features L path w))"
  using assms by (cases "Predictor_extract_features L path w") (simp add: Predictor_predict_def)

lemma predict_eval:
  assumes "\<not> training (valence_model self)" "\<not> training (arousal_model self)"
    and "Predictor_extract_features L path w = (Inr features, w1)"
  shows "Predictor_predict L self path w =
    (case fst (AudioNet_forward (valence_model self) features g) of
       Inl e \<Rightarrow> (Inl e, self, record_call (Call_forward (valence_model self) features) w1)
     | Inr vp \<Rightarrow>
      (let w3 = record_call (Call_forward (arousal_model self) features)
                  (record_call (Call_forward (valence_model self) features) w1) in
       case fst (AudioNet_forward (arousal_model self) features g) of
         Inl e \<Rightarrow> (Inl e, self, w3)
       | Inr ap \<Rightarrow>
        (case item vp of
           Inl e \<Rightarrow> (Inl e, self, w3)
         | Inr v \<Rightarrow>
          (case item ap of
             Inl e \<Rightarrow> (Inl e, self, w3)
           | Inr a \<Rightarrow> (Inr (v, a), self, w3)))))"
  unfolding predict_unfold[OF assms(3) AudioNet_call_eval[OF assms(1), of features w1 g]
      AudioNet_call_eval[OF assms(2), of features _ g]]
  by (simp add: Let_def split: sum.splits)

lemma stub_predict:
  assumes "length clip \<le> 1984500"
  shows "Predictor_predict (stub_librosa (Some clip)) stub_predictor path w =
    (Inr (3, 5), stub_predictor,
     w\<lparr>calls := calls w @
         [Call_load path (Some 44100), Call_mfcc (clip @ replicate (1984500 - length clip) 0),
          Call_chroma_stft (clip @ replicate (1984500 - length clip) 0),
          Call_spectral_contrast (clip @ replicate (1984500 - length clip) 0),
          Call_forward (valence_model stub_predictor) (zeros 39 4501),
          Call_forward (arousal_model stub_predictor) (zeros 39 4501)]\<rparr>)"
proof -
  have v: "AudioNet_forward (valence_model stub_predictor) (zeros 39 4501) g
      = (Inr [[3]], valence_model stub_predictor, g)" for g
    using constant_net_forward[OF valence_params_def, where b=3 and net="valence_model stub_predictor"]
    by (simp add: stub_predictor_def)
  have a: "AudioNet_forward (arousal_model stub_predictor) (zeros 39 4501) g
      = (Inr [[5]], arousal_model stub_predictor, g)" for g
    using constant_net_forward[OF arousal_params_def, where b=5 and net="arousal_model stub_predictor"]
    by (simp add: stub_predictor_def)
  have tv: "\<not> training (valence_model stub_predictor)" "\<not> training (arousal_model stub_predictor)"
    by (simp_all add: stub_predictor_def AudioNet_eval_def)
  show ?thesis
    unfolding predict_eval[OF tv stub_extract[OF assms], of path w "rng w"]
    by (simp add: v a item_def record_call_def)
qed

lemma Dropout_training_draws:
  "Dropout_forward True [[1]] (sconst True) \<noteq> Dropout_forward True [[1]] (sconst False)"
  by (simp add: Dropout_forward_def)

lemma predict_eval_result:
  assumes "\<not> training (valence_model self)" "\<not> training (arousal_model self)"
  shows "fst (Predictor_predict L self path w') = fst (Predictor_predict L self path w)"
    and "fst (snd (Predictor_predict L self path w)) = self"
    and "rng (snd (snd (Predictor_predict L self path w))) = rng w"
proof -
  have rngx: "rng (snd (Predictor_extract_features L path v)) = rng v" for v
  proof (cases "decode L path (Some 44100)")
    case (Inl e)
    then show ?thesis by (simp add: Predictor_extract_features_decode_error record_call_def)
  next
    case (Inr wave0)
    show ?thesis unfolding Predictor_extract_features_unfold[OF Inr]
      by (simp add: Let_def record_call_def split: sum.splits)
  qed
  obtain r w1 where e: "Predictor_extract_features L path w = (r, w1)"
    by (cases "Predictor_extract_features L path w")
  obtain r' w1' where e': "Predictor_extract_features L path w' = (r', w1')"
    by (cases "Predictor_extract_features L path w'")
  have rr: "r' = r" using extract_world_independent[of L path w' w] e e' by simp
  have g1: "rng w1 = rng w" using rngx[of w] e by simp
  show "fst (Predictor_predict L self path w') = fst (Predictor_predict L self path w)"
  proof (cases r)
    case (Inl err)
    then show ?thesis using e e' rr by (simp add: Predictor_predict_def)
  next
    case (Inr features)
    show ?thesis
      unfolding predict_eval[OF assms e[unfolded Inr], of "rng w"]
        predict_eval[OF assms e'[unfolded rr Inr], of "rng w"]
      by (simp add: Let_def split: sum.splits)
  qed
  show "fst (snd (Predictor_predict L self path w)) = self"
  proof (cases r)
    case (Inl err)
    then show ?thesis using e by (simp add: Predictor_predict_def)
  next
    case (Inr features)
    show ?thesis
      unfolding predict_eval[OF assms e[unfolded Inr], of "rng w"]
      by (simp add: Let_def split: sum.splits)
  qed
  show "rng (snd (snd (Predictor_predict L self path w))) = rng w"
  proof (cases r)
    case (Inl err)
    then show ?thesis using e g1 by (simp add: Predictor_predict_def)
  next
    case (Inr features)
    show ?thesis
      unfolding predict_eval[OF assms e[unfolded Inr], of "rng w"]
      using g1 by (simp add: Let_def record_call_def split: sum.splits)
  qed
qed

text \<open>
  Claim C8. For a predictor built by \<^verbatim>\<open>Predictor.__init__\<close> (whose \<^verbatim>\<open>load_model\<close> puts both
  networks in evaluation mode), the result of \<^verbatim>\<open>predict\<close> for a given file is the same in every
  state of the random generator and of the call log; the call leaves the predictor (weights and
  batch-norm buffers) and the generator as they were, so a second call on what the first one left
  returns the same result.
\<close>

theorem predict_deterministic:
  assumes "fst (Predictor_init T path_valence path_arousal w0) = Inr self"
  shows "fst (Predictor_predict L self audio_path w') = fst (Predictor_predict L self audio_path w)
    \<and> fst (snd (Predictor_predict L self audio_path w)) = self
    \<and> rng (snd (snd (Predictor_predict L self audio_path w))) = rng w
    \<and> fst (Predictor_predict L (fst (snd (Predictor_predict L self audio_path w))) audio_path
             (snd (snd (Predictor_predict L self audio_path w))))
        = fst (Predictor_predict L self audio_path w)"
proof -
  note ev = Predictor_init_Inr(1,2)[OF assms]
  have 1: "fst (Predictor_predict L self audio_path v) = fst (Predictor_predict L self audio_path w)" for v
    using predict_eval_result(1)[OF ev] .
  have 2: "fst (snd (Predictor_predict L self audio_path w)) = self"
    using predict_eval_result(2)[OF ev] .
  have 3: "rng (snd (snd (Predictor_predict L self audio_path w))) = rng w"
    using predict_eval_result(3)[OF ev] .
  show ?thesis unfolding 2 using 1 3 by simp
qed

text \<open>
  The stand-in predictor answers (3, 5) for a two-sample clip, with the generator all true or
  all false.
\<close>

theorem predict_deterministic_witness:
  "fst (Predictor_init stub_torch ''valence.pth'' ''arousal.pth'' world0) = Inr stub_predictor
   \<and> fst (Predictor_predict (stub_librosa (Some [0.5, - 0.25])) stub_predictor ''song.mp3'' world0)
       = Inr (3, 5)
   \<and> fst (Predictor_predict (stub_librosa (Some [0.5, - 0.25])) stub_predictor ''song.mp3''
            (world0\<lparr>rng := sconst False\<rparr>))
       = fst (Predictor_predict (stub_librosa (Some [0.5, - 0.25])) stub_predictor ''song.mp3'' world0)
   \<and> fst (snd (Predictor_predict (stub_librosa (Some [0.5, - 0.25])) stub_predictor ''song.mp3'' world0))
       = stub_predictor"
proof -
  have i: "fst (Predictor_init stub_torch ''valence.pth'' ''arousal.pth'' world0) = Inr stub_predictor"
    by (rule stub_Predictor_init)
  have p: "fst (Predictor_predict (stub_librosa (Some [0.5, - 0.25])) stub_predictor ''song.mp3'' world0)
       = Inr (3, 5)"
    by (simp add: stub_predict)
  from predict_deterministic[OF i, of "stub_librosa (Some [0.5, - 0.25])" "''song.mp3''"
      "world0\<lparr>rng := sconst False\<rparr>" world0] i p
  show ?thesis by simp
qed

text \<open>
  Claim C9. A call of \<^verbatim>\<open>predict\<close> loads and decodes the file exactly once, whatever its outcome,
  and every forward pass it makes receives the descriptor that this one extraction returned. When
  the call succeeds, its library calls are one load, one call of each of the three transforms and
  two forward passes, the valence network and then the arousal network, on the same descriptor,
  and the pair returned is made of their two outputs.
\<close>

theorem predict_single_descriptor:
  "\<exists>new. calls (snd (snd (Predictor_predict L self audio_path w))) = calls w @ new
     \<and> length (filter is_load new) = 1
     \<and> (\<forall>x \<in> set (forward_inputs new). fst (Predictor_extract_features L audio_path w) = Inr x)
     \<and> (\<forall>v a. fst (Predictor_predict L self audio_path w) = Inr (v, a) \<longrightarrow>
          (\<exists>wave features w1 vp ap.
             Predictor_extract_features L audio_path w = (Inr features, w1)
           \<and> new = [Call_load audio_path (Some 44100), Call_mfcc wave, Call_chroma_stft wave,
                    Call_spectral_contrast wave,
                    Call_forward (valence_model self) features,
                    Call_forward (arousal_model self) features]
           \<and> fst (AudioNet_call (valence_model self) features w1) = Inr vp \<and> item vp = Inr v
           \<and> fst (AudioNet_call (arousal_model self) features
                     (snd (snd (AudioNet_call (valence_model self) features w1)))) = Inr ap
           \<and> item ap = Inr a))"
proof -
  obtain r w1 where e: "Predictor_extract_features L audio_path w = (r, w1)"
    by (cases "Predictor_extract_features L audio_path w")
  from extract_calls[of L audio_path w] e obtain new0 where
    n0: "calls w1 = calls w @ new0" "length (filter is_load new0) = 1" "forward_inputs new0 = []"
    and ok: "\<And>features. r = Inr features \<Longrightarrow>
          \<exists>wave. new0 = [Call_load audio_path (Some 44100), Call_mfcc wave, Call_chroma_stft wave,
                          Call_spectral_contrast wave]"
    by auto
  show ?thesis
  proof (cases r)
    case (Inl err)
    then have "Predictor_predict L self audio_path w = (Inl err, self, w1)"
      using e by (simp add: Predictor_predict_def)
    then show ?thesis using n0 by (intro exI[of _ new0]) simp
  next
    case (Inr features)
    obtain rv vm w2 where cv: "AudioNet_call (valence_model self) features w1 = (rv, vm, w2)"
      by (cases "AudioNet_call (valence_model self) features w1")
    obtain ra am w3 where ca: "AudioNet_call (arousal_model self) features w2 = (ra, am, w3)"
      by (cases "AudioNet_call (arousal_model self) features w2")
    have c2: "calls w2 = calls w @ new0 @ [Call_forward (valence_model self) features]"
      using AudioNet_call_calls[of "valence_model self" features w1] cv n0 by simp
    have c3: "calls w3 = calls w @ new0 @ [Call_forward (valence_model self) features,
        Call_forward (arousal_model self) features]"
      using AudioNet_call_calls[of "arousal_model self" features w2] ca c2 by simp
    from ok[OF Inr] obtain wave where w: "new0 = [Call_load audio_path (Some 44100), Call_mfcc wave,
        Call_chroma_stft wave, Call_spectral_contrast wave]" by blast
    note u = predict_unfold[OF e[unfolded Inr] cv ca]
    show ?thesis
    proof (cases rv)
      case (Inl err)
      show ?thesis unfolding u
        using Inl c2 n0 e Inr
        by (intro exI[of _ "new0 @ [Call_forward (valence_model self) features]"])
          (simp add: is_load_simps forward_inputs_append forward_inputs_simps)
    next
      case vp: (Inr vp)
      have "\<exists>new. calls w3 = calls w @ new
         \<and> length (filter is_load new) = 1
         \<and> (\<forall>x \<in> set (forward_inputs new). r = Inr x)
         \<and> new = [Call_load audio_path (Some 44100), Call_mfcc wave, Call_chroma_stft wave,
                    Call_spectral_contrast wave,
                    Call_forward (valence_model self) features,
                    Call_forward (arousal_model self) features]"
        using c3 w Inr by (simp add: is_load_simps forward_inputs_simps)
      then show ?thesis unfolding u
        using vp e Inr cv ca
        by (auto split: sum.splits)
    qed
  qed
qed

text \<open>
  The stand-in run: one load, three transforms, two forward passes on the same 39 by 4501
  descriptor.
\<close>

theorem predict_single_descriptor_witness:
  "fst (Predictor_predict (stub_librosa (Some [0.5, - 0.25])) stub_predictor ''song.mp3'' world0)
     = Inr (3, 5)
   \<and> fst (Predictor_extract_features (stub_librosa (Some [0.5, - 0.25])) ''song.mp3'' world0)
     = Inr (zeros 39 4501)
   \<and> forward_inputs (calls (snd (snd
        (Predictor_predict (stub_librosa (Some [0.5, - 0.25])) stub_predictor ''song.mp3'' world0))))
     = [zeros 39 4501, zeros 39 4501]
   \<and> length (filter is_load (calls (snd (snd
        (Predictor_predict (stub_librosa (Some [0.5, - 0.25])) stub_predictor ''song.mp3'' world0)))))
     = 1"
proof -
  let ?L = "stub_librosa (Some [0.5, - 0.25])"
  have p: "fst (Predictor_predict ?L stub_predictor ''song.mp3'' world0) = Inr (3, 5)"
    by (simp add: stub_predict)
  have e: "fst (Predictor_extract_features ?L ''song.mp3'' world0) = Inr (zeros 39 4501)"
    by (simp add: stub_extract)
  from predict_single_descriptor[of ?L stub_predictor "''song.mp3''" world0] p e
  obtain wave where "calls (snd (snd (Predictor_predict ?L stub_predictor ''song.mp3'' world0)))
     = [Call_load ''song.mp3'' (Some 44100), Call_mfcc wave, Call_chroma_stft wave,
        Call_spectral_contrast wave,
        Call_forward (valence_model stub_predictor) (zeros 39 4501),
        Call_forward (arousal_model stub_predictor) (zeros 39 4501)]"
    by (cases "Predictor_extract_features ?L ''song.mp3'' world0") (auto simp: world0_def)
  then show ?thesis using p e by (simp add: forward_inputs_simps is_load_simps)
qed

text \<open>
  With transforms that do reject an empty waveform, an empty decoded waveform still yields a
  descriptor and an affect pair: the transforms only ever see the padded waveform.
\<close>

theorem empty_waveform_counterexample:
  "decode (stub_librosa (Some [])) ''empty.mp3'' (Some 44100) = Inr []
   \<and> mfcc (stub_librosa (Some [])) [] 44100 20 2048 441 (Some 1102) = Inl FeatureError
   \<and> fst (Predictor_extract_features (stub_librosa (Some [])) ''empty.mp3'' world0)
       = Inr (zeros 39 4501)
   \<and> fst (Predictor_predict (stub_librosa (Some [])) stub_predictor ''empty.mp3'' world0)
       = Inr (3, 5)"
  by (simp add: stub_extract stub_predict) (simp add: stub_librosa_def)

lemma extract_transform_errors:
  assumes "decode L path (Some 44100) = Inr wave0"
  shows "mfcc L (pad_truncate 44100 wave0) 44100 20 2048 441 (Some 1102) = Inl e
      \<Longrightarrow> fst (Predictor_extract_features L path w) = Inl e"
    and "mfcc L (pad_truncate 44100 wave0) 44100 20 2048 441 (Some 1102) = Inr mf
      \<Longrightarrow> chroma_stft L (pad_truncate 44100 wave0) 44100 2048 441 = Inl e
      \<Longrightarrow> fst (Predictor_extract_features L path w) = Inl e"
    and "mfcc L (pad_truncate 44100 wave0) 44100 20 2048 441 (Some 1102) = Inr mf
      \<Longrightarrow> chroma_stft L (pad_truncate 44100 wave0) 44100 2048 441 = Inr ch
      \<Longrightarrow> spectral_contrast L (pad_truncate 44100 wave0) 44100 2048 441 = Inl e
      \<Longrightarrow> fst (Predictor_extract_features L path w) = Inl e"
  unfolding Predictor_extract_features_unfold[OF assms] by (simp_all add: Let_def)

lemma extract_empty_is_silence:
  assumes "decode L path (Some 44100) = Inr []"
  shows "Predictor_extract_features L path w
    = Predictor_extract_features (L\<lparr>decode := \<lambda>p sr. Inr (replicate 1984500 0)\<rparr>) path w"
proof -
  have d: "decode (L\<lparr>decode := \<lambda>p sr. Inr (replicate 1984500 0)\<rparr>) path (Some 44100)
      = Inr (replicate 1984500 0)" by simp
  have p: "pad_truncate 44100 (replicate 1984500 0) = pad_truncate 44100 []"
    by (simp add: pad_truncate_def)
  show ?thesis
    unfolding Predictor_extract_features_unfold[OF assms] Predictor_extract_features_unfold[OF d] p
    by (simp add: Let_def split: sum.splits)
qed

lemma predict_forward_errors:
  assumes "Predictor_extract_features L path w = (Inr features, w1)"
  shows "fst (AudioNet_call (valence_model self) features w1) = Inl e
      \<Longrightarrow> fst (Predictor_predict L self path w) = Inl e"
    and "fst (AudioNet_call (valence_model self) features w1) = Inr vp
      \<Longrightarrow> fst (AudioNet_call (arousal_model self) features
                 (snd (snd (AudioNet_call (valence_model self) features w1)))) = Inl e
      \<Longrightarrow> fst (Predictor_predict L self path w) = Inl e"
proof -
  obtain rv vm w2 where cv: "AudioNet_call (valence_model self) features w1 = (rv, vm, w2)"
    by (cases "AudioNet_call (valence_model self) features w1")
  obtain ra am w3 where ca: "AudioNet_call (arousal_model self) features w2 = (ra, am, w3)"
    by (cases "AudioNet_call (arousal_model self) features w2")
  note u = predict_unfold[OF assms cv ca]
  show "fst (AudioNet_call (valence_model self) features w1) = Inl e
      \<Longrightarrow> fst (Predictor_predict L self path w) = Inl e"
    unfolding u using cv by simp
  show "fst (AudioNet_call (valence_model self) features w1) = Inr vp
      \<Longrightarrow> fst (AudioNet_call (arousal_model self) features
                 (snd (snd (AudioNet_call (valence_model self) features w1)))) = Inl e
      \<Longrightarrow> fst (Predictor_predict L self path w) = Inl e"
    unfolding u using cv ca by simp
qed

lemma predict_success_needs_descriptor:
  assumes "fst (Predictor_predict L self path w) = Inr (v, a)"
  shows "\<exists>features. fst (Predictor_extract_features L path w) = Inr features"
  using assms
  by (cases "Predictor_extract_features L path w")
     (auto simp: Predictor_predict_def split: sum.splits)

lemma frames_shape2: "shape2 r c m \<Longrightarrow> 0 < r \<Longrightarrow> frames m = c"
  by (cases m) (auto simp: shape2_def frames_def)

lemma extract_error_origin:
  assumes "fst (Predictor_extract_features L path w) = Inl e"
  shows "decode L path (Some 44100) = Inl e
    \<or> (\<exists>wave. decode L path (Some 44100) = Inr wave
         \<and> (mfcc L (pad_truncate 44100 wave) 44100 20 2048 441 (Some 1102) = Inl e
            \<or> chroma_stft L (pad_truncate 44100 wave) 44100 2048 441 = Inl e
            \<or> spectral_contrast L (pad_truncate 44100 wave) 44100 2048 441 = Inl e
            \<or> (\<exists>m c k. mfcc L (pad_truncate 44100 wave) 44100 20 2048 441 (Some 1102) = Inr m
                  \<and> chroma_stft L (pad_truncate 44100 wave) 44100 2048 441 = Inr c
                  \<and> spectral_contrast L (pad_truncate 44100 wave) 44100 2048 441 = Inr k
                  \<and> np_concatenate [m, c, k] = Inl e \<and> e = ValueError)))"
proof (cases "decode L path (Some 44100)")
  case (Inl err)
  then show ?thesis using assms by (simp add: Predictor_extract_features_decode_error)
next
  case (Inr wave0)
  show ?thesis
    using assms unfolding Predictor_extract_features_unfold[OF Inr] Inr
    by (auto simp: Let_def np_concatenate_def split: sum.splits if_splits)
qed

lemma extract_error_origin_shapes:
  assumes "librosa_shapes L" "fst (Predictor_extract_features L path w) = Inl e"
  shows "decode L path (Some 44100) = Inl e
    \<or> (\<exists>wave. decode L path (Some 44100) = Inr wave
         \<and> (mfcc L (pad_truncate 44100 wave) 44100 20 2048 441 (Some 1102) = Inl e
            \<or> chroma_stft L (pad_truncate 44100 wave) 44100 2048 441 = Inl e
            \<or> spectral_contrast L (pad_truncate 44100 wave) 44100 2048 441 = Inl e))"
proof -
  have ok: "np_concatenate [m, c, k] \<noteq> Inl e'"
    if "mfcc L (pad_truncate 44100 wave) 44100 20 2048 441 (Some 1102) = Inr m"
      "chroma_stft L (pad_truncate 44100 wave) 44100 2048 441 = Inr c"
      "spectral_contrast L (pad_truncate 44100 wave) 44100 2048 441 = Inr k" for wave m c k e'
  proof -
    have n: "1 + length (pad_truncate 44100 wave) div 441 = 4501"
      by (simp add: pad_truncate_length)
    from assms(1) that have "shape2 20 4501 m" "shape2 12 4501 c" "shape2 7 4501 k"
      unfolding librosa_shapes_def using n by metis+
    then have "frames m = 4501" "frames c = 4501" "frames k = 4501"
      by (simp_all add: frames_shape2)
    then show ?thesis by (simp add: np_concatenate_def)
  qed
  from extract_error_origin[OF assms(2)] ok show ?thesis by blast
qed

text \<open>
  Claim C7, amended. An empty decoded waveform is not rejected: feature extraction treats it
  exactly as 1,984,500 samples of silence. Extraction fails with the error of the decoder or of
  the transform that fails on the padded waveform, and when it fails its error is the decoder's,
  that of one of the three transforms on the padded waveform, or the \<^verbatim>\<open>ValueError\<close> of
  \<^verbatim>\<open>np.concatenate\<close> on outputs that disagree in frame count; with the shapes librosa documents
  the last case does not occur. A network built by \<^verbatim>\<open>Predictor.__init__\<close> fails with a shape
  error on an input that does not have 39 channels. \<^verbatim>\<open>Predictor.predict\<close> returns the error of
  feature extraction, of the valence network or of the arousal network unchanged, and returns an
  affect pair only when extraction gave a descriptor.
\<close>

theorem predict_errors_propagate:
  "(decode L audio_path (Some 44100) = Inr [] \<longrightarrow>
      Predictor_extract_features L audio_path w
        = Predictor_extract_features (L\<lparr>decode := \<lambda>p sr. Inr (replicate 1984500 0)\<rparr>) audio_path w)
   \<and> (decode L audio_path (Some 44100) = Inl e \<longrightarrow>
        fst (Predictor_extract_features L audio_path w) = Inl e)
   \<and> (decode L audio_path (Some 44100) = Inr wave0
        \<and> mfcc L (pad_truncate 44100 wave0) 44100 20 2048 441 (Some 1102) = Inl e \<longrightarrow>
        fst (Predictor_extract_features L audio_path w) = Inl e)
   \<and> (decode L audio_path (Some 44100) = Inr wave0
        \<and> mfcc L (pad_truncate 44100 wave0) 44100 20 2048 441 (Some 1102) = Inr mf
        \<and> chroma_stft L (pad_truncate 44100 wave0) 44100 2048 441 = Inl e \<longrightarrow>
        fst (Predictor_extract_features L audio_path w) = Inl e)
   \<and> (decode L audio_path (Some 44100) = Inr wave0
        \<and> mfcc L (pad_truncate 44100 wave0) 44100 20 2048 441 (Some 1102) = Inr mf
        \<and> chroma_stft L (pad_truncate 44100 wave0) 44100 2048 441 = Inr ch
        \<and> spectral_contrast L (pad_truncate 44100 wave0) 44100 2048 441 = Inl e \<longrightarrow>
        fst (Predictor_extract_features L audio_path w) = Inl e)
   \<and> (fst (Predictor_extract_features L audio_path w) = Inl e \<longrightarrow>
        decode L audio_path (Some 44100) = Inl e
        \<or> (\<exists>wave. decode L audio_path (Some 44100) = Inr wave
             \<and> (mfcc L (pad_truncate 44100 wave) 44100 20 2048 441 (Some 1102) = Inl e
                \<or> chroma_stft L (pad_truncate 44100 wave) 44100 2048 441 = Inl e
                \<or> spectral_contrast L (pad_truncate 44100 wave) 44100 2048 441 = Inl e
                \<or> (\<exists>m c k. mfcc L (pad_truncate 44100 wave) 44100 20 2048 441 (Some 1102) = Inr m
                      \<and> chroma_stft L (pad_truncate 44100 wave) 44100 2048 441 = Inr c
                      \<and> spectral_contrast L (pad_truncate 44100 wave) 44100 2048 441 = Inr k
                      \<and> np_concatenate [m, c, k] = Inl e \<and> e = ValueError))))
   \<and> (librosa_shapes L \<and> fst (Predictor_extract_features L audio_path w) = Inl e \<longrightarrow>
        decode L audio_path (Some 44100) = Inl e
        \<or> (\<exists>wave. decode L audio_path (Some 44100) = Inr wave
             \<and> (mfcc L (pad_truncate 44100 wave) 44100 20 2048 441 (Some 1102) = Inl e
                \<or> chroma_stft L (pad_truncate 44100 wave) 44100 2048 441 = Inl e
                \<or> spectral_contrast L (pad_truncate 44100 wave) 44100 2048 441 = Inl e)))
   \<and> (fst (Predictor_init T path_valence path_arousal w0) = Inr built \<and> length x \<noteq> 39 \<longrightarrow>
        fst (AudioNet_forward (valence_model built) x g) = Inl ShapeError
        \<and> fst (AudioNet_forward (arousal_model built) x g) = Inl ShapeError)
   \<and> (fst (Predictor_extract_features L audio_path w) = Inl e \<longrightarrow>
        fst (Predictor_predict L self audio_path w) = Inl e)
   \<and> (Predictor_extract_features L audio_path w = (Inr features, w1)
        \<and> fst (AudioNet_call (valence_model self) features w1) = Inl e \<longrightarrow>
        fst (Predictor_predict L self audio_path w) = Inl e)
   \<and> (Predictor_extract_features L audio_path w = (Inr features, w1)
        \<and> fst (AudioNet_call (valence_model self) features w1) = Inr vp
        \<and> fst (AudioNet_call (arousal_model self) features
                  (snd (snd (AudioNet_call (valence_model self) features w1)))) = Inl e \<longrightarrow>
        fst (Predictor_predict L self audio_path w) = Inl e)
   \<and> (fst (Predictor_predict L self audio_path w) = Inr (v, a) \<longrightarrow>
        (\<exists>d. fst (Predictor_extract_features L audio_path w) = Inr d))"
proof -
  have 1: "decode L audio_path (Some 44100) = Inr [] \<longrightarrow>
      Predictor_extract_features L audio_path w
        = Predictor_extract_features (L\<lparr>decode := \<lambda>p sr. Inr (replicate 1984500 0)\<rparr>) audio_path w"
    using extract_empty_is_silence by blast
  have 2: "decode L audio_path (Some 44100) = Inl e \<longrightarrow>
        fst (Predictor_extract_features L audio_path w) = Inl e"
    by (simp add: Predictor_extract_features_decode_error)
  have 3: "decode L audio_path (Some 44100) = Inr wave0
        \<and> mfcc L (pad_truncate 44100 wave0) 44100 20 2048 441 (Some 1102) = Inl e \<longrightarrow>
        fst (Predictor_extract_features L audio_path w) = Inl e"
    using extract_transform_errors(1) by blast
  have 4: "decode L audio_path (Some 44100) = Inr wave0
        \<and> mfcc L (pad_truncate 44100 wave0) 44100 20 2048 441 (Some 1102) = Inr mf
        \<and> chroma_stft L (pad_truncate 44100 wave0) 44100 2048 441 = Inl e \<longrightarrow>
        fst (Predictor_extract_features L audio_path w) = Inl e"
    using extract_transform_errors(2) by blast
  have 5: "decode L audio_path (Some 44100) = Inr wave0
        \<and> mfcc L (pad_truncate 44100 wave0) 44100 20 2048 441 (Some 1102) = Inr mf
        \<and> chroma_stft L (pad_truncate 44100 wave0) 44100 2048 441 = Inr ch
        \<and> spectral_contrast L (pad_truncate 44100 wave0) 44100 2048 441 = Inl e \<longrightarrow>
        fst (Predictor_extract_features L audio_path w) = Inl e"
    using extract_transform_errors(3) by blast
  have c1: "fst (Predictor_extract_features L audio_path w) = Inl e \<longrightarrow>
        decode L audio_path (Some 44100) = Inl e
        \<or> (\<exists>wave. decode L audio_path (Some 44100) = Inr wave
             \<and> (mfcc L (pad_truncate 44100 wave) 44100 20 2048 441 (Some 1102) = Inl e
                \<or> chroma_stft L (pad_truncate 44100 wave) 44100 2048 441 = Inl e
                \<or> spectral_contrast L (pad_truncate 44100 wave) 44100 2048 441 = Inl e
                \<or> (\<exists>m c k. mfcc L (pad_truncate 44100 wave) 44100 20 2048 441 (Some 1102) = Inr m
                      \<and> chroma_stft L (pad_truncate 44100 wave) 44100 2048 441 = Inr c
                      \<and> spectral_contrast L (pad_truncate 44100 wave) 44100 2048 441 = Inr k
                      \<and> np_concatenate [m, c, k] = Inl e \<and> e = ValueError)))"
    using extract_error_origin by blast
  have c2: "librosa_shapes L \<and> fst (Predictor_extract_features L audio_path w) = Inl e \<longrightarrow>
        decode L audio_path (Some 44100) = Inl e
        \<or> (\<exists>wave. decode L audio_path (Some 44100) = Inr wave
             \<and> (mfcc L (pad_truncate 44100 wave) 44100 20 2048 441 (Some 1102) = Inl e
                \<or> chroma_stft L (pad_truncate 44100 wave) 44100 2048 441 = Inl e
                \<or> spectral_contrast L (pad_truncate 44100 wave) 44100 2048 441 = Inl e))"
    using extract_error_origin_shapes by blast
  have 6: "fst (Predictor_init T path_valence path_arousal w0) = Inr built \<and> length x \<noteq> 39 \<longrightarrow>
        fst (AudioNet_forward (valence_model built) x g) = Inl ShapeError
        \<and> fst (AudioNet_forward (arousal_model built) x g) = Inl ShapeError"
    using Predictor_init_Inr(3,4)[of T path_valence path_arousal w0 built]
    by (simp add: AudioNet_forward_channel_mismatch)
  have 7: "fst (Predictor_extract_features L audio_path w) = Inl e \<longrightarrow>
        fst (Predictor_predict L self audio_path w) = Inl e"
    by (simp add: predict_extract_error)
  have 8: "Predictor_extract_features L audio_path w = (Inr features, w1)
        \<and> fst (AudioNet_call (valence_model self) features w1) = Inl e \<longrightarrow>
        fst (Predictor_predict L self audio_path w) = Inl e"
    using predict_forward_errors(1) by blast
  have 9: "Predictor_extract_features L audio_path w = (Inr features, w1)
        \<and> fst (AudioNet_call (valence_model self) features w1) = Inr vp
        \<and> fst (AudioNet_call (arousal_model self) features
                  (snd (snd (AudioNet_call (valence_model self) features w1)))) = Inl e \<longrightarrow>
        fst (Predictor_predict L self audio_path w) = Inl e"
    using predict_forward_errors(2) by blast
  have 10: "fst (Predictor_predict L self audio_path w) = Inr (v, a) \<longrightarrow>
        (\<exists>d. fst (Predictor_extract_features L audio_path w) = Inr d)"
    using predict_success_needs_descriptor by blast
  from 1 2 3 4 5 c1 c2 6 7 8 9 10 show ?thesis by blast
qed

text \<open>
  The empty clip runs as silence; a file that does not decode, a failing transform and a network
  configured for 20 channels each give \<^verbatim>\<open>predict\<close> their error; a chroma output of 7 frames makes
  the concatenation fail, and that library does not have the documented shapes.
\<close>

theorem predict_errors_propagate_witness:
  "Predictor_extract_features (stub_librosa (Some [])) ''empty.mp3'' world0
     = Predictor_extract_features (stub_librosa (Some (replicate 1984500 0))) ''empty.mp3'' world0
   \<and> fst (Predictor_predict (stub_librosa None) stub_predictor ''song.mp3'' world0) = Inl DecodeError
   \<and> fst (Predictor_predict ((stub_librosa (Some [0.5]))\<lparr>mfcc := \<lambda>y sr n f h wl. Inl FeatureError\<rparr>)
             stub_predictor ''song.mp3'' world0) = Inl FeatureError
   \<and> fst (Predictor_predict ((stub_librosa (Some [0.5]))\<lparr>chroma_stft := \<lambda>y sr f h. Inl FeatureError\<rparr>)
             stub_predictor ''song.mp3'' world0) = Inl FeatureError
   \<and> fst (Predictor_predict ((stub_librosa (Some [0.5]))\<lparr>spectral_contrast := \<lambda>y sr f h. Inl FeatureError\<rparr>)
             stub_predictor ''song.mp3'' world0) = Inl FeatureError
   \<and> fst (Predictor_init stub_torch ''valence.pth'' ''arousal.pth'' world0) = Inr stub_predictor
   \<and> fst (AudioNet_forward (valence_model stub_predictor) (zeros 20 4501) (sconst True)) = Inl ShapeError
   \<and> fst (AudioNet_forward (arousal_model stub_predictor) (zeros 20 4501) (sconst True)) = Inl ShapeError
   \<and> fst (Predictor_predict (stub_librosa (Some [0.5]))
        (stub_predictor\<lparr>valence_model :=
           (valence_model stub_predictor)\<lparr>conv1_0 :=
              (conv1_0 (valence_model stub_predictor))\<lparr>in_channels := 20\<rparr>\<rparr>\<rparr>)
        ''song.mp3'' world0) = Inl ShapeError
   \<and> fst (Predictor_predict (stub_librosa (Some [0.5]))
        (stub_predictor\<lparr>arousal_model :=
           (arousal_model stub_predictor)\<lparr>conv1_0 :=
              (conv1_0 (arousal_model stub_predictor))\<lparr>in_channels := 20\<rparr>\<rparr>\<rparr>)
        ''song.mp3'' world0) = Inl ShapeError
   \<and> fst (Predictor_predict (stub_librosa (Some [0.5])) stub_predictor ''song.mp3'' world0) = Inr (3, 5)
   \<and> fst (Predictor_extract_features (stub_librosa (Some [0.5])) ''song.mp3'' world0) = Inr (zeros 39 4501)
   \<and> fst (Predictor_extract_features
        ((stub_librosa (Some [0.5]))\<lparr>chroma_stft := \<lambda>y sr f h. Inr (zeros 12 7)\<rparr>) ''song.mp3'' world0)
       = Inl ValueError
   \<and> np_concatenate [zeros 20 4501, zeros 12 7, zeros 7 4501] = Inl ValueError
   \<and> \<not> librosa_shapes ((stub_librosa (Some [0.5]))\<lparr>chroma_stft := \<lambda>y sr f h. Inr (zeros 12 7)\<rparr>)"
proof -
  let ?S = "stub_librosa (Some [0.5])"
  let ?wave = "pad_truncate 44100 [0.5]"
  have ne: "?wave \<noteq> []" by (simp add: pad_truncate_def)
  have n: "length ?wave = 1984500" by (simp add: pad_truncate_length)
  \<comment> \<open>the empty clip\<close>
  have u: "(stub_librosa (Some []))\<lparr>decode := \<lambda>p sr. Inr (replicate 1984500 0)\<rparr>
      = stub_librosa (Some (replicate 1984500 0))"
    by (simp add: stub_librosa_def)
  have d0: "decode (stub_librosa (Some [])) ''empty.mp3'' (Some 44100) = Inr []"
    by (simp add: stub_librosa_def)
  have w1: "Predictor_extract_features (stub_librosa (Some [])) ''empty.mp3'' world0
     = Predictor_extract_features (stub_librosa (Some (replicate 1984500 0))) ''empty.mp3'' world0"
    using predict_errors_propagate[where L="stub_librosa (Some [])" and audio_path="''empty.mp3''"
        and w=world0] d0 unfolding u by blast
  \<comment> \<open>a file that does not decode\<close>
  have dn: "decode (stub_librosa None) ''song.mp3'' (Some 44100) = Inl DecodeError"
    by (simp add: stub_librosa_def)
  have en: "fst (Predictor_extract_features (stub_librosa None) ''song.mp3'' world0) = Inl DecodeError"
    using predict_errors_propagate[where L="stub_librosa None" and audio_path="''song.mp3''"
        and w=world0 and e=DecodeError] dn by blast
  have w2: "fst (Predictor_predict (stub_librosa None) stub_predictor ''song.mp3'' world0) = Inl DecodeError"
    using predict_errors_propagate[where L="stub_librosa None" and audio_path="''song.mp3''"
        and w=world0 and e=DecodeError and self=stub_predictor] en by blast
  \<comment> \<open>a failing transform\<close>
  let ?M = "?S\<lparr>mfcc := \<lambda>y sr n f h wl. Inl FeatureError\<rparr>"
  have dm: "decode ?M ''song.mp3'' (Some 44100) = Inr [0.5]"
    "mfcc ?M ?wave 44100 20 2048 441 (Some 1102) = Inl FeatureError"
    by (simp_all add: stub_librosa_def)
  have em: "fst (Predictor_extract_features ?M ''song.mp3'' world0) = Inl FeatureError"
    using predict_errors_propagate[where L="?M" and audio_path="''song.mp3''"
        and w=world0 and e=FeatureError and ?wave0.0="[0.5]"] dm by blast
  have w3: "fst (Predictor_predict ?M stub_predictor ''song.mp3'' world0) = Inl FeatureError"
    using predict_errors_propagate[where L="?M" and audio_path="''song.mp3''"
        and w=world0 and e=FeatureError and self=stub_predictor] em by blast
  let ?C = "?S\<lparr>chroma_stft := \<lambda>y sr f h. Inl FeatureError\<rparr>"
  have dc: "decode ?C ''song.mp3'' (Some 44100) = Inr [0.5]"
    "mfcc ?C ?wave 44100 20 2048 441 (Some 1102) = Inr (zeros 20 4501)"
    "chroma_stft ?C ?wave 44100 2048 441 = Inl FeatureError"
    using ne by (simp_all add: stub_librosa_def pad_truncate_length)
  have ec: "fst (Predictor_extract_features ?C ''song.mp3'' world0) = Inl FeatureError"
    using predict_errors_propagate[where L="?C" and audio_path="''song.mp3''"
        and w=world0 and e=FeatureError and ?wave0.0="[0.5]" and mf="zeros 20 4501"] dc by blast
  have w4: "fst (Predictor_predict ?C stub_predictor ''song.mp3'' world0) = Inl FeatureError"
    using predict_errors_propagate[where L="?C" and audio_path="''song.mp3''"
        and w=world0 and e=FeatureError and self=stub_predictor] ec by blast
  let ?K = "?S\<lparr>spectral_contrast := \<lambda>y sr f h. Inl FeatureError\<rparr>"
  have dk: "decode ?K ''song.mp3'' (Some 44100) = Inr [0.5]"
    "mfcc ?K ?wave 44100 20 2048 441 (Some 1102) = Inr (zeros 20 4501)"
    "chroma_stft ?K ?wave 44100 2048 441 = Inr (zeros 12 4501)"
    "spectral_contrast ?K ?wave 44100 2048 441 = Inl FeatureError"
    using ne by (simp_all add: stub_librosa_def pad_truncate_length)
  have ek: "fst (Predictor_extract_features ?K ''song.mp3'' world0) = Inl FeatureError"
    using predict_errors_propagate[where L="?K" and audio_path="''song.mp3''"
        and w=world0 and e=FeatureError and ?wave0.0="[0.5]" and mf="zeros 20 4501"
        and ch="zeros 12 4501"] dk by blast
  have w5: "fst (Predictor_predict ?K stub_predictor ''song.mp3'' world0) = Inl FeatureError"
    using predict_errors_propagate[where L="?K" and audio_path="''song.mp3''"
        and w=world0 and e=FeatureError and self=stub_predictor] ek by blast
  \<comment> \<open>a channel mismatch\<close>
  have i: "fst (Predictor_init stub_torch ''valence.pth'' ''arousal.pth'' world0) = Inr stub_predictor"
    by (rule stub_Predictor_init)
  have l20: "length (zeros 20 4501) \<noteq> 39" by (simp add: zeros_def)
  have w6: "fst (AudioNet_forward (valence_model stub_predictor) (zeros 20 4501) (sconst True)) = Inl ShapeError
     \<and> fst (AudioNet_forward (arousal_model stub_predictor) (zeros 20 4501) (sconst True)) = Inl ShapeError"
    using predict_errors_propagate[where T=stub_torch and path_valence="''valence.pth''"
        and path_arousal="''arousal.pth''" and ?w0.0=world0 and built=stub_predictor
        and x="zeros 20 4501" and g="sconst True"] i l20 by blast
  let ?w1 = "snd (Predictor_extract_features ?S ''song.mp3'' world0)"
  have ex: "Predictor_extract_features ?S ''song.mp3'' world0 = (Inr (zeros 39 4501), ?w1)"
    by (simp add: stub_extract)
  let ?bv = "(valence_model stub_predictor)\<lparr>conv1_0 :=
              (conv1_0 (valence_model stub_predictor))\<lparr>in_channels := 20\<rparr>\<rparr>"
  let ?ba = "(arousal_model stub_predictor)\<lparr>conv1_0 :=
              (conv1_0 (arousal_model stub_predictor))\<lparr>in_channels := 20\<rparr>\<rparr>"
  have l39: "length (zeros 39 4501) = 39" by (simp add: zeros_def)
  have fv: "fst (AudioNet_call ?bv (zeros 39 4501) v) = Inl ShapeError" for v
    using AudioNet_forward_channel_mismatch[of "zeros 39 4501" ?bv "rng v"] l39
    by (simp add: AudioNet_call_def)
  have fa: "fst (AudioNet_call ?ba (zeros 39 4501) v) = Inl ShapeError" for v
    using AudioNet_forward_channel_mismatch[of "zeros 39 4501" ?ba "rng v"] l39
    by (simp add: AudioNet_call_def)
  have w7: "fst (Predictor_predict ?S (stub_predictor\<lparr>valence_model := ?bv\<rparr>) ''song.mp3'' world0)
      = Inl ShapeError"
    using predict_errors_propagate[where L="?S" and audio_path="''song.mp3''"
        and w=world0 and e=ShapeError and self="stub_predictor\<lparr>valence_model := ?bv\<rparr>"
        and features="zeros 39 4501" and ?w1.0="?w1"] ex fv[of ?w1] by simp
  have gv: "fst (AudioNet_call (valence_model stub_predictor) (zeros 39 4501) ?w1) = Inr [[3]]"
    using constant_net_forward[OF valence_params_def, where b=3 and net="valence_model stub_predictor"
        and g="rng ?w1"]
    by (simp add: stub_predictor_def AudioNet_call_def)
  have w8: "fst (Predictor_predict ?S (stub_predictor\<lparr>arousal_model := ?ba\<rparr>) ''song.mp3'' world0)
      = Inl ShapeError"
    using predict_errors_propagate[where L="?S" and audio_path="''song.mp3''"
        and w=world0 and e=ShapeError and self="stub_predictor\<lparr>arousal_model := ?ba\<rparr>"
        and features="zeros 39 4501" and ?w1.0="?w1" and vp="[[3]]"] ex gv fa by simp
  \<comment> \<open>a successful run\<close>
  have w9: "fst (Predictor_predict ?S stub_predictor ''song.mp3'' world0) = Inr (3, 5)"
    by (simp add: stub_predict)
  have w10: "fst (Predictor_extract_features ?S ''song.mp3'' world0) = Inr (zeros 39 4501)"
    using predict_errors_propagate[where L="?S" and audio_path="''song.mp3''"
        and w=world0 and self=stub_predictor and v=3 and a=5] w9 stub_extract[of "[0.5]" "''song.mp3''" world0]
    by simp
  \<comment> \<open>outputs that disagree in frame count\<close>
  let ?R = "?S\<lparr>chroma_stft := \<lambda>y sr f h. Inr (zeros 12 7)\<rparr>"
  have dr: "decode ?R ''song.mp3'' (Some 44100) = Inr [0.5]"
    "mfcc ?R ?wave 44100 20 2048 441 (Some 1102) = Inr (zeros 20 4501)"
    "chroma_stft ?R ?wave 44100 2048 441 = Inr (zeros 12 7)"
    "spectral_contrast ?R ?wave 44100 2048 441 = Inr (zeros 7 4501)"
    using ne by (simp_all add: stub_librosa_def pad_truncate_length)
  have cr: "np_concatenate [zeros 20 4501, zeros 12 7, zeros 7 4501] = Inl ValueError"
    by (simp add: np_concatenate_def frames_zeros)
  have er: "fst (Predictor_extract_features ?R ''song.mp3'' world0) = Inl ValueError"
    unfolding Predictor_extract_features_unfold[OF dr(1)] Let_def dr(2-4) sum.case cr fst_conv ..
  have w11: "\<not> librosa_shapes ?R"
  proof
    assume "librosa_shapes ?R"
    with predict_errors_propagate[where L="?R" and audio_path="''song.mp3''" and w=world0
        and e=ValueError] er
    have "decode ?R ''song.mp3'' (Some 44100) = Inl ValueError
        \<or> (\<exists>wave. decode ?R ''song.mp3'' (Some 44100) = Inr wave
             \<and> (mfcc ?R (pad_truncate 44100 wave) 44100 20 2048 441 (Some 1102) = Inl ValueError
                \<or> chroma_stft ?R (pad_truncate 44100 wave) 44100 2048 441 = Inl ValueError
                \<or> spectral_contrast ?R (pad_truncate 44100 wave) 44100 2048 441 = Inl ValueError))"
      by blast
    then show False using dr by auto
  qed
  from w1 w2 w3 w4 w5 i w6 w7 w8 w9 w10 er cr w11 show ?thesis by blast
qed

section \<open>Properties of the module namespace\<close>

lemma length_row_stats: "length (concat (map (\<lambda>row. [f row, g row]) rows)) = 2 * length rows"
  by (induction rows) simp_all

lemma extract_features_l284_Inr:
  assumes "fst (extract_features_l284 L path w) = Inr v"
  shows "\<exists>y sr mfccs. mfcc L y sr 20 2048 512 None = Inr mfccs \<and> length v = 17 + 2 * length mfccs"
  using assms
  by (auto simp: extract_features_l284_def and_then_def librosa_load_def lib_call_def Let_def
      stats_def length_row_stats split: sum.splits prod.splits) blast

lemma extract_features_l284_length:
  assumes "librosa_shapes L" "fst (extract_features_l284 L path w) = Inr v"
  shows "length v = 57"
proof -
  from extract_features_l284_Inr[OF assms(2)] obtain y sr mfccs where
    m: "mfcc L y sr 20 2048 512 None = Inr mfccs" and l: "length v = 17 + 2 * length mfccs"
    by blast
  from assms(1) m have "shape2 20 (1 + length y div 512) mfccs"
    unfolding librosa_shapes_def by blast
  then show ?thesis using l by (simp add: shape2_def)
qed

lemma returning_Inr:
  "fst (returning f m w) = Inr r \<longleftrightarrow> (\<exists>x. fst (m w) = Inr x \<and> r = f x)"
  by (cases "m w") (auto simp: returning_def and_then_def split: sum.splits)

lemma module_globals_cases:
  assumes "module_globals name = Some obj"
  shows "obj \<noteq> Function ''extract_features'' 83 \<and> obj \<noteq> Function ''extract_features'' 131"
  using assms
  by (auto simp: module_globals_def bind_names_def module_statements_def split: if_splits)


lemma stub_genre_runs:
  "clip \<noteq> [] \<Longrightarrow> \<exists>v. fst (extract_features_l284 (stub_librosa (Some clip)) path w) = Inr v"
  by (simp add: extract_features_l284_def and_then_def librosa_load_def lib_call_def Let_def
      stub_librosa_def)

text \<open>
  Claim C10. The module binds \<^verbatim>\<open>extract_features\<close> twice; after loading, the name denotes the
  function of line 284 and no global name denotes the function of line 83 (nor the method of line
  131, which is bound in the namespace of \<^verbatim>\<open>Predictor\<close>). With the shapes librosa documents, the
  function of line 284 returns a flat vector of 57 numbers, and the method returns a descriptor of
  39 channels.
\<close>

theorem module_extract_features_shadowed:
  "module_globals ''extract_features'' = Some (Function ''extract_features'' 284)
   \<and> map snd (filter (\<lambda>(name, obj). name = ''extract_features'') module_statements)
       = [Function ''extract_features'' 83, Function ''extract_features'' 284]
   \<and> (\<forall>name. module_globals name \<noteq> Some (Function ''extract_features'' 83))
   \<and> (\<forall>name. module_globals name \<noteq> Some (Function ''extract_features'' 131))
   \<and> class_Predictor ''extract_features'' = Some (Function ''extract_features'' 131)
   \<and> (librosa_shapes L \<longrightarrow>
        (\<forall>r. fst (call_extractor L (Function ''extract_features'' 284) audio_path w) = Inr r \<longrightarrow>
           (\<exists>v. r = Feature_vector v \<and> length v = 57))
      \<and> (\<forall>r. fst (call_extractor L (Function ''extract_features'' 131) audio_path w) = Inr r \<longrightarrow>
           (\<exists>d. r = Descriptor d \<and> length d = 39)))"
proof -
  have 1: "module_globals ''extract_features'' = Some (Function ''extract_features'' 284)"
    by (simp add: module_globals_def bind_names_def module_statements_def)
  have 2: "map snd (filter (\<lambda>(name, obj). name = ''extract_features'') module_statements)
       = [Function ''extract_features'' 83, Function ''extract_features'' 284]"
    by (simp add: module_statements_def)
  have 3: "\<forall>name. module_globals name \<noteq> Some (Function ''extract_features'' 83)"
    using module_globals_cases by blast
  have 4: "\<forall>name. module_globals name \<noteq> Some (Function ''extract_features'' 131)"
    using module_globals_cases by blast
  have 5: "class_Predictor ''extract_features'' = Some (Function ''extract_features'' 131)"
    by (simp add: class_Predictor_def bind_names_def)
  have 6: "\<exists>v. r = Feature_vector v \<and> length v = 57"
    if "librosa_shapes L"
      "fst (call_extractor L (Function ''extract_features'' 284) audio_path w) = Inr r" for r
    using that extract_features_l284_length[of L audio_path w]
    by (auto simp: call_extractor_def returning_Inr)
  have 7: "\<exists>d. r = Descriptor d \<and> length d = 39"
    if "librosa_shapes L"
      "fst (call_extractor L (Function ''extract_features'' 131) audio_path w) = Inr r" for r
  proof -
    from that(2) obtain d where d: "fst (Predictor_extract_features L audio_path w) = Inr d"
      "r = Descriptor d"
      by (auto simp: call_extractor_def returning_Inr)
    from Predictor_extract_features_parts[OF that(1) d(1)] have "length d = 39"
      by (auto simp: shape2_def)
    then show ?thesis using d(2) by simp
  qed
  from 1 2 3 4 5 6 7 show ?thesis by blast
qed

text \<open>
  On the stand-in library the module-level name gives a vector of 57 numbers and the method a
  39 by 4501 descriptor.
\<close>

theorem module_extract_features_shadowed_witness:
  "librosa_shapes (stub_librosa (Some [0.5, - 0.25]))
   \<and> module_globals ''extract_features'' = Some (Function ''extract_features'' 284)
   \<and> (\<exists>v. fst (call_extractor (stub_librosa (Some [0.5, - 0.25]))
               (the (module_globals ''extract_features'')) ''song.mp3'' world0)
            = Inr (Feature_vector v) \<and> length v = 57)
   \<and> fst (call_extractor (stub_librosa (Some [0.5, - 0.25]))
             (the (class_Predictor ''extract_features'')) ''song.mp3'' world0)
        = Inr (Descriptor (zeros 39 4501))
   \<and> length (zeros 39 4501) = 39"
proof -
  let ?L = "stub_librosa (Some [0.5, - 0.25])"
  note t = module_extract_features_shadowed[of ?L "''song.mp3''" world0]
  have s: "librosa_shapes ?L" by (rule stub_librosa_shapes)
  from t have g: "module_globals ''extract_features'' = Some (Function ''extract_features'' 284)"
    and c: "class_Predictor ''extract_features'' = Some (Function ''extract_features'' 131)"
    by blast+
  obtain v where v: "fst (extract_features_l284 ?L ''song.mp3'' world0) = Inr v"
    using stub_genre_runs[of "[0.5, - 0.25]" "''song.mp3''" world0] by auto
  then have r: "fst (call_extractor ?L (Function ''extract_features'' 284) ''song.mp3'' world0)
      = Inr (Feature_vector v)"
    by (simp add: call_extractor_def returning_Inr)
  with t s have "length v = 57" by blast
  with r g have a: "\<exists>v. fst (call_extractor ?L (the (module_globals ''extract_features'')) ''song.mp3'' world0)
            = Inr (Feature_vector v) \<and> length v = 57"
    by auto
  have d: "fst (call_extractor ?L (the (class_Predictor ''extract_features'')) ''song.mp3'' world0)
        = Inr (Descriptor (zeros 39 4501))"
    unfolding c by (simp add: call_extractor_def returning_Inr stub_extract)
  with t s c have "length (zeros 39 4501) = 39" by (simp add: zeros_def)
  with s g a d show ?thesis by blast
qed

end
